theory Spec2Isabelle
  imports Main
begin

unbundle bit_operations_syntax

section \<open>Library functions the module calls\<close>

subsection \<open>Exceptions\<close>

text \<open>
  The exceptions the module and the library calls it makes can raise. The module defines
  no exception class of its own: a missing environment variable surfaces as Python's
  \<open>KeyError\<close>, the conflicting capture options as \<open>ValueError\<close>, a failed fetch as
  \<open>URLError\<close>, a failed file operation or process launch as \<open>OSError\<close> and a non-zero exit
  under \<open>check\<close> as \<open>CalledProcessError\<close> (exit code, command, captured stdout, captured
  stderr).
\<close>

datatype error =
    KeyError string
  | ValueError string
  | URLError string
  | OSError string
  | CalledProcessError int "string list" "string option" "string option"

subsection \<open>\<open>os.path.join\<close> and \<open>os.path.dirname\<close> (POSIX)\<close>

definition sep :: char where
  "sep = CHR ''/''"

definition startswith_sep :: "string \<Rightarrow> bool" where
  "startswith_sep b = (case b of [] \<Rightarrow> False | c # _ \<Rightarrow> c = sep)"

definition endswith_sep :: "string \<Rightarrow> bool" where
  "endswith_sep p = (case rev p of [] \<Rightarrow> False | c # _ \<Rightarrow> c = sep)"

text \<open>
  One round of the loop of \<open>posixpath.join\<close>: a component that starts with the separator
  replaces what was joined so far; after an empty path or a path that ends with the
  separator the component is appended as it is; otherwise a separator is put between.
\<close>

definition join_step :: "string \<Rightarrow> string \<Rightarrow> string" where
  "join_step path b =
     (if startswith_sep b then b
      else if path = [] \<or> endswith_sep path then path @ b
      else path @ [sep] @ b)"

definition os_path_join :: "string \<Rightarrow> string list \<Rightarrow> string" where
  "os_path_join a p = foldl join_step a p"

text \<open>
  \<open>posixpath.dirname\<close>: the head is everything up to and including the last separator;
  unless the head is empty or made of separators only, its trailing separators are
  stripped.
\<close>

definition os_path_dirname :: "string \<Rightarrow> string" where
  "os_path_dirname p =
     (let head = rev (dropWhile (\<lambda>c. c \<noteq> sep) (rev p))
      in if head \<noteq> [] \<and> \<not> list_all (\<lambda>c. c = sep) head
         then rev (dropWhile (\<lambda>c. c = sep) (rev head))
         else head)"

text \<open>\<open>posixpath.basename\<close>: what follows the last separator.\<close>

definition os_path_basename :: "string \<Rightarrow> string" where
  "os_path_basename p = rev (takeWhile (\<lambda>c. c \<noteq> sep) (rev p))"

subsection \<open>\<open>str.format\<close> with named fields\<close>

text \<open>
  The template of the module has plain named fields only (\<open>{name}\<close>, no conversion, no
  format specification, no doubled brace), so that is what the model of \<open>str.format\<close>
  covers: text outside braces is copied, a field is replaced by the keyword argument of
  that name, and a name that was not passed raises \<open>KeyError\<close>. A substituted value is not
  scanned again.
\<close>

function str_format :: "string \<Rightarrow> (string \<rightharpoonup> string) \<Rightarrow> error + string" where
  "str_format [] kw = Inr []"
| "str_format (c # cs) kw =
     (if c = CHR ''{''
      then (let name = takeWhile (\<lambda>x. x \<noteq> CHR ''}'') cs;
                rest = drop 1 (dropWhile (\<lambda>x. x \<noteq> CHR ''}'') cs)
            in case kw name of
                 None \<Rightarrow> Inl (KeyError name)
               | Some v \<Rightarrow>
                   (case str_format rest kw of
                      Inl e \<Rightarrow> Inl e
                    | Inr out \<Rightarrow> Inr (v @ out)))
      else (case str_format cs kw of
              Inl e \<Rightarrow> Inl e
            | Inr out \<Rightarrow> Inr (c # out)))"
  by pat_completeness auto
termination
proof (relation "measure (\<lambda>(s, kw). length s)")
  show "wf (measure (\<lambda>(s, kw). length s))"
    by simp
next
  fix c :: char and cs :: string and kw :: "string \<rightharpoonup> string" and name rest v
  assume "rest = drop 1 (dropWhile (\<lambda>x. x \<noteq> CHR ''}'') cs)"
  then have "length rest \<le> length cs"
    using length_dropWhile_le [of "\<lambda>x. x \<noteq> CHR ''}''" cs] by simp
  then show "((rest, kw), (c # cs, kw)) \<in> measure (\<lambda>(s, kw). length s)"
    by simp
next
  fix c :: char and cs :: string and kw :: "string \<rightharpoonup> string"
  show "((cs, kw), (c # cs, kw)) \<in> measure (\<lambda>(s, kw). length s)"
    by simp
qed

subsection \<open>The host: environment, files, network, processes\<close>

text \<open>
  What the module reads and changes outside itself. A file or directory is a node under
  its path, with its permission bits. What the network, the file system and a child
  process answer is not decided by the module, so the world carries it: \<open>remote\<close> gives
  the body a GET of a URL returns (or nothing when the fetch fails), \<open>tmp_name\<close> the name
  of the temporary file the next fetch writes, \<open>makedirs_ok\<close>, \<open>move_ok\<close> and \<open>chmod_ok\<close>
  whether the operating system lets the operation through, and \<open>program\<close> what launching a
  command with an encoding and options ends in: the exception of the launch, or the exit
  code and the two streams as \<open>communicate\<close> hands them back. \<open>trace\<close> records, in order,
  the log records emitted, the fetches started and the child processes started.
\<close>

datatype node =
    Directory (mode: int)
  | RegularFile (content: string) (mode: int)

datatype event =
    LogInfo string
  | LogWarning string
  | Fetch string
  | Spawn "string list"

datatype kwval = PIPE | STDOUT | DEVNULL | PyNone | FileNo int | Other string

datatype completed_process =
  CompletedProcess (proc_args: "string list") (returncode: int)
    (stdout: "string option") (stderr: "string option")

record world =
  environ :: "string \<rightharpoonup> string"
  files :: "string \<rightharpoonup> node"
  remote :: "string \<rightharpoonup> string"
  tmp_name :: string
  makedirs_ok :: "string \<Rightarrow> bool"
  move_ok :: "string \<Rightarrow> string \<Rightarrow> bool"
  chmod_ok :: "string \<Rightarrow> bool"
  program :: "string list \<Rightarrow> string \<Rightarrow> (string \<rightharpoonup> kwval)
                \<Rightarrow> error + (int \<times> string option \<times> string option)"
  trace :: "event list"

definition log_info :: "string \<Rightarrow> world \<Rightarrow> world" where
  "log_info msg w = w \<lparr> trace := trace w @ [LogInfo msg] \<rparr>"

definition log_warning :: "string \<Rightarrow> world \<Rightarrow> world" where
  "log_warning msg w = w \<lparr> trace := trace w @ [LogWarning msg] \<rparr>"

definition os_path_exists :: "world \<Rightarrow> string \<Rightarrow> bool" where
  "os_path_exists w p = (files w p \<noteq> None)"

text \<open>
  \<open>urllib.request.urlretrieve(url)\<close> without a file name: the body goes to a new temporary
  file (created with mode 0600), whose name is returned; a failed fetch raises.
\<close>

definition urlretrieve :: "string \<Rightarrow> world \<Rightarrow> (error + string) \<times> world" where
  "urlretrieve url w =
     (let w1 = w \<lparr> trace := trace w @ [Fetch url] \<rparr>
      in case remote w url of
           None \<Rightarrow> (Inl (URLError url), w1)
         | Some body \<Rightarrow>
             (Inr (tmp_name w),
              w1 \<lparr> files := (files w1)(tmp_name w \<mapsto> RegularFile body 384) \<rparr>))"

text \<open>
  \<open>os.makedirs(d, exist_ok=True)\<close>: the empty name and a name taken by a regular file
  raise; an existing directory is left alone.
\<close>

definition os_makedirs :: "string \<Rightarrow> world \<Rightarrow> (error + unit) \<times> world" where
  "os_makedirs d w =
     (if d = [] then (Inl (OSError ''FileNotFoundError''), w)
      else case files w d of
             Some (RegularFile c m) \<Rightarrow> (Inl (OSError ''FileExistsError''), w)
           | Some (Directory m) \<Rightarrow> (Inr (), w)
           | None \<Rightarrow>
               if makedirs_ok w d
               then (Inr (), w \<lparr> files := (files w)(d \<mapsto> Directory 493) \<rparr>)
               else (Inl (OSError ''PermissionError''), w))"

text \<open>
  \<open>shutil.move(src, dst)\<close>. When \<open>dst\<close> is a directory the source goes into it, under
  its own base name (trailing separators stripped first), unless that name is taken there
  or source and destination are the same; otherwise the source is renamed onto \<open>dst\<close>.
  The node keeps its permission bits.
\<close>

definition os_rename :: "string \<Rightarrow> string \<Rightarrow> world \<Rightarrow> (error + string) \<times> world" where
  "os_rename src dst w =
     (case files w src of
        None \<Rightarrow> (Inl (OSError ''FileNotFoundError''), w)
      | Some n \<Rightarrow>
          if move_ok w src dst
          then (Inr dst, w \<lparr> files := ((files w)(src := None))(dst \<mapsto> n) \<rparr>)
          else (Inl (OSError ''PermissionError''), w))"

definition shutil_basename :: "string \<Rightarrow> string" where
  "shutil_basename p = os_path_basename (rev (dropWhile (\<lambda>c. c = sep) (rev p)))"

definition shutil_move :: "string \<Rightarrow> string \<Rightarrow> world \<Rightarrow> (error + string) \<times> world" where
  "shutil_move src dst w =
     (case files w dst of
        Some (Directory m) \<Rightarrow>
          if src = dst then (Inr dst, w)
          else (let real_dst = os_path_join dst [shutil_basename src]
                in if os_path_exists w real_dst
                   then (Inl (OSError ''shutil.Error''), w)
                   else os_rename src real_dst w)
      | _ \<Rightarrow> os_rename src dst w)"

definition set_mode :: "int \<Rightarrow> node \<Rightarrow> node" where
  "set_mode m n = (case n of Directory _ \<Rightarrow> Directory m | RegularFile c _ \<Rightarrow> RegularFile c m)"

definition os_chmod :: "string \<Rightarrow> int \<Rightarrow> world \<Rightarrow> (error + unit) \<times> world" where
  "os_chmod p m w =
     (case files w p of
        None \<Rightarrow> (Inl (OSError ''FileNotFoundError''), w)
      | Some n \<Rightarrow>
          if chmod_ok w p
          then (Inr (), w \<lparr> files := (files w)(p \<mapsto> set_mode m n) \<rparr>)
          else (Inl (OSError ''PermissionError''), w))"

text \<open>The permission bits of the \<open>stat\<close> module.\<close>

definition S_IRUSR :: int where "S_IRUSR = 256"
definition S_IWUSR :: int where "S_IWUSR = 128"
definition S_IXUSR :: int where "S_IXUSR = 64"
definition S_IRGRP :: int where "S_IRGRP = 32"
definition S_IXGRP :: int where "S_IXGRP = 8"
definition S_IROTH :: int where "S_IROTH = 4"
definition S_IXOTH :: int where "S_IXOTH = 1"

text \<open>
  \<open>subprocess.run(cmd, check=..., encoding=..., **kwargs)\<close>: the child is started and
  waited for; with \<open>check\<close> a non-zero exit code raises \<open>CalledProcessError\<close> with the exit
  code, the command and both streams; otherwise the completed process is returned.
\<close>

definition subprocess_run ::
  "string list \<Rightarrow> bool \<Rightarrow> string \<Rightarrow> (string \<rightharpoonup> kwval) \<Rightarrow> world
     \<Rightarrow> (error + completed_process) \<times> world" where
  "subprocess_run cmd check encoding kwargs w =
     (let w1 = w \<lparr> trace := trace w @ [Spawn cmd] \<rparr>
      in case program w cmd encoding kwargs of
           Inl e \<Rightarrow> (Inl e, w1)
         | Inr (retcode, out, err) \<Rightarrow>
             if check \<and> retcode \<noteq> 0
             then (Inl (CalledProcessError retcode cmd out err), w1)
             else (Inr (CompletedProcess cmd retcode out err), w1))"

section \<open>The module\<close>

subsection \<open>Module constants\<close>

text \<open>The pattern that defines where to find the binary remotely.\<close>

definition REMOTE_URL :: string where
  "REMOTE_URL =
     ''https://storage.googleapis.com/pre-commit-assets/'' @
     ''{binary_name}/{version}/bin/{binary_name}''"

subsection \<open>\<open>BinaryDownloader\<close>\<close>

record downloader =
  add_arguments_called :: bool
  handle_arguments_called :: bool
  binary_name :: string
  override_path :: "string option"
  override_url :: "string option"
  version :: string

definition init :: "string \<Rightarrow> string \<Rightarrow> downloader" where
  "init name ver =
     \<lparr> add_arguments_called = False,
       handle_arguments_called = False,
       binary_name = name,
       override_path = None,
       override_url = None,
       version = ver \<rparr>"

text \<open>
  \<open>handle_arguments\<close> reads the two overrides off the parsed arguments with
  \<open>getattr(args, name, None)\<close>; the namespace is a map from attribute names to values.
\<close>

definition handle_arguments :: "downloader \<Rightarrow> (string \<rightharpoonup> string) \<Rightarrow> downloader" where
  "handle_arguments self args =
     self \<lparr> handle_arguments_called := True,
            override_path := args (''override_'' @ binary_name self @ ''_path''),
            override_url := args (''override_'' @ binary_name self @ ''_url'') \<rparr>"

text \<open>
  \<open>cached_binary_root\<close>. Python evaluates the arguments of a call before the call, so
  \<open>os.environ["HOME"]\<close> is looked up (and raises \<open>KeyError\<close> when the variable is missing)
  before \<open>os.environ.get\<close> looks at \<open>XDG_CACHE_HOME\<close>.
\<close>

definition cached_binary_root :: "downloader \<Rightarrow> (string \<rightharpoonup> string) \<Rightarrow> error + string" where
  "cached_binary_root self env =
     (case env ''HOME'' of
        None \<Rightarrow> Inl (KeyError ''HOME'')
      | Some home \<Rightarrow>
          (let dflt = os_path_join home [''.cache''];
               cached_path = (case env ''XDG_CACHE_HOME'' of
                                Some x \<Rightarrow> x
                              | None \<Rightarrow> dflt)
           in Inr (os_path_join cached_path [binary_name self])))"

definition cached_binary_path :: "downloader \<Rightarrow> (string \<rightharpoonup> string) \<Rightarrow> error + string" where
  "cached_binary_path self env =
     (case cached_binary_root self env of
        Inl e \<Rightarrow> Inl e
      | Inr root \<Rightarrow> Inr (os_path_join root [version self, binary_name self]))"

text \<open>
  \<open>remote_binary_url\<close> is \<open>self.override_url or REMOTE_URL.format(...)\<close>: Python's \<open>or\<close>
  takes the left operand when it is truthy, and \<open>None\<close> and the empty string are not.
\<close>

definition truthy :: "string option \<Rightarrow> bool" where
  "truthy v = (case v of None \<Rightarrow> False | Some s \<Rightarrow> s \<noteq> [])"

definition remote_binary_url :: "downloader \<Rightarrow> error + string" where
  "remote_binary_url self =
     (case override_url self of
        Some u \<Rightarrow>
          if u \<noteq> [] then Inr u
          else str_format REMOTE_URL
                 [''binary_name'' \<mapsto> binary_name self, ''version'' \<mapsto> version self]
      | None \<Rightarrow>
          str_format REMOTE_URL
            [''binary_name'' \<mapsto> binary_name self, ''version'' \<mapsto> version self])"

text \<open>
  \<open>fix_file_permissions\<close>: \<open>os.chmod\<close> with the seven bits or-ed together; an \<open>OSError\<close> is
  caught and logged as a warning, any other exception passes through.
\<close>

definition fix_file_permissions :: "string \<Rightarrow> world \<Rightarrow> (error + unit) \<times> world" where
  "fix_file_permissions target_path w =
     (case os_chmod target_path
             (S_IRUSR OR S_IWUSR OR S_IXUSR OR S_IRGRP OR S_IXGRP OR S_IROTH OR S_IXOTH) w of
        (Inl (OSError ex), w1) \<Rightarrow>
          (Inr (),
           log_warning (''Failed to set chmod 755 for '' @ target_path @ '': '' @ ex) w1)
      | (Inl e, w1) \<Rightarrow> (Inl e, w1)
      | (Inr u, w1) \<Rightarrow> (Inr (), w1))"

definition download_binary :: "downloader \<Rightarrow> world \<Rightarrow> (error + string) \<times> world" where
  "download_binary self w =
     (case cached_binary_path self (environ w) of
        Inl e \<Rightarrow> (Inl e, w)
      | Inr target_path \<Rightarrow>
          if os_path_exists w target_path
          then (Inr target_path,
                log_info (''Already found '' @ binary_name self @ '' at '' @ target_path) w)
          else
            (case remote_binary_url self of
               Inl e \<Rightarrow> (Inl e, w)
             | Inr remote_url \<Rightarrow>
                 (case urlretrieve remote_url w of
                    (Inl e, w1) \<Rightarrow> (Inl e, w1)
                  | (Inr local_filename, w1) \<Rightarrow>
                      (case os_makedirs (os_path_dirname target_path) w1 of
                         (Inl e, w2) \<Rightarrow> (Inl e, w2)
                       | (Inr u, w2) \<Rightarrow>
                           (case shutil_move local_filename target_path w2 of
                              (Inl e, w3) \<Rightarrow> (Inl e, w3)
                            | (Inr moved, w3) \<Rightarrow>
                                (case fix_file_permissions target_path w3 of
                                   (Inl e, w4) \<Rightarrow> (Inl e, w4)
                                 | (Inr u', w4) \<Rightarrow>
                                     (Inr target_path,
                                      log_info
                                        (''Downloaded '' @ binary_name self @ '' from '' @
                                         remote_url @ '' to '' @ local_filename @
                                         '' and then moved to '' @ target_path)
                                        w4)))))))"

text \<open>
  \<open>run_binary\<close>, in the order of its statements: the warning when the two set-up methods
  were not both called; the binary path, from \<open>override_path\<close> when that is truthy and
  from \<open>download_binary\<close> otherwise; the command; the translation of \<open>capture_output\<close>,
  which raises when \<open>stderr\<close> or \<open>stdout\<close> is among the keyword arguments; the child
  process.
\<close>

definition setup_warning :: string where
  "setup_warning =
     ''Looks like you haven't called BinaryDownloader.add_arguments() and '' @
     ''BinaryDownloader.handle_arguments(). This means your users can't '' @
     ''customize the binary downloader behavior.''"

definition warn_unless_set_up :: "downloader \<Rightarrow> world \<Rightarrow> world" where
  "warn_unless_set_up self w =
     (if \<not> (handle_arguments_called self \<and> add_arguments_called self)
      then log_warning setup_warning w
      else w)"

definition resolve_binary_path :: "downloader \<Rightarrow> world \<Rightarrow> (error + string) \<times> world" where
  "resolve_binary_path self w =
     (case override_path self of
        Some p \<Rightarrow> if p \<noteq> [] then (Inr p, w) else download_binary self w
      | None \<Rightarrow> download_binary self w)"

definition run_binary ::
  "downloader \<Rightarrow> string list \<Rightarrow> bool \<Rightarrow> bool \<Rightarrow> string \<Rightarrow> (string \<rightharpoonup> kwval) \<Rightarrow> world
     \<Rightarrow> (error + completed_process) \<times> world" where
  "run_binary self arguments capture_output check encoding kwargs w =
     (let w0 = warn_unless_set_up self w
      in case resolve_binary_path self w0 of
           (Inl e, w1) \<Rightarrow> (Inl e, w1)
         | (Inr binary_path, w1) \<Rightarrow>
             (let cmd = [binary_path] @ arguments
              in if capture_output
                 then if kwargs ''stderr'' \<noteq> None \<or> kwargs ''stdout'' \<noteq> None
                      then (Inl (ValueError
                                   ''Do not specify both capture_output and stdout/stderr''),
                            w1)
                      else subprocess_run cmd check encoding
                             (kwargs(''stderr'' \<mapsto> PIPE, ''stdout'' \<mapsto> PIPE)) w1
                 else subprocess_run cmd check encoding kwargs w1))"

section \<open>What the properties are stated with\<close>

text \<open>The URLs fetched and the commands started, read off a trace.\<close>

fun fetched :: "event list \<Rightarrow> string list" where
  "fetched [] = []"
| "fetched (Fetch u # es) = u # fetched es"
| "fetched (e # es) = fetched es"

fun spawned :: "event list \<Rightarrow> string list list" where
  "spawned [] = []"
| "spawned (Spawn c # es) = c # spawned es"
| "spawned (e # es) = spawned es"

fun warnings :: "event list \<Rightarrow> string list" where
  "warnings [] = []"
| "warnings (LogWarning m # es) = m # warnings es"
| "warnings (e # es) = warnings es"

text \<open>
  The cache path as the specification words it: the cache root is the value of
  \<open>XDG_CACHE_HOME\<close> if set and \<open><HOME>/.cache\<close> otherwise, and the path is
  \<open><cache_root>/<binary_name>/<version>/<binary_name>\<close>, the parts put together with one
  separator between each two.
\<close>

definition spec_cache_root :: "(string \<rightharpoonup> string) \<Rightarrow> string option" where
  "spec_cache_root env =
     (case env ''XDG_CACHE_HOME'' of
        Some x \<Rightarrow> Some x
      | None \<Rightarrow> (case env ''HOME'' of
                   Some home \<Rightarrow> Some (home @ ''/.cache'')
                 | None \<Rightarrow> None))"

definition spec_cached_binary_path :: "downloader \<Rightarrow> (string \<rightharpoonup> string) \<Rightarrow> string option" where
  "spec_cached_binary_path self env =
     (case spec_cache_root env of
        None \<Rightarrow> None
      | Some root \<Rightarrow>
          Some (root @ ''/'' @ binary_name self @ ''/'' @ version self @ ''/'' @
                binary_name self))"

text \<open>
  A root that \<open>os.path.join\<close> extends with a separator, and a path segment that it
  appends as it is and extends with a separator in turn.
\<close>

definition plain_root :: "string \<Rightarrow> bool" where
  "plain_root r = (r \<noteq> [] \<and> \<not> endswith_sep r)"

definition plain_segment :: "string \<Rightarrow> bool" where
  "plain_segment s = (s \<noteq> [] \<and> \<not> startswith_sep s \<and> \<not> endswith_sep s)"

text \<open>
  A host for the examples: \<open>HOME\<close> and \<open>XDG_CACHE_HOME\<close> are set, no file exists yet, the
  bucket serves \<open>foo\<close> 1.0, every file operation is let through, and every command exits
  with code 1, printing \<open>boom\<close> on standard error when that is piped.
\<close>

definition example_environ :: "string \<rightharpoonup> string" where
  "example_environ = [''HOME'' \<mapsto> ''/home/u'', ''XDG_CACHE_HOME'' \<mapsto> ''/tmp/c'']"

definition example_program ::
  "string list \<Rightarrow> string \<Rightarrow> (string \<rightharpoonup> kwval)
     \<Rightarrow> error + (int \<times> string option \<times> string option)" where
  "example_program cmd encoding kwargs =
     Inr (1,
          (if kwargs ''stdout'' = Some PIPE then Some [] else None),
          (if kwargs ''stderr'' = Some PIPE then Some ''boom'' else None))"

definition example_world :: world where
  "example_world =
     \<lparr> environ = example_environ,
       files = Map.empty,
       remote = [''https://storage.googleapis.com/pre-commit-assets/foo/1.0/bin/foo''
                   \<mapsto> ''#!/bin/sh''],
       tmp_name = ''/tmp/tmpabc'',
       makedirs_ok = (\<lambda>d. True),
       move_ok = (\<lambda>src dst. True),
       chmod_ok = (\<lambda>p. True),
       program = example_program,
       trace = [] \<rparr>"

section \<open>Cache path and remote URL\<close>

lemmas path_defs = os_path_join_def join_step_def startswith_sep_def endswith_sep_def sep_def

text \<open>
  The cache path fails exactly when \<open>HOME\<close> is missing, whatever \<open>XDG_CACHE_HOME\<close> holds, and
  the exception is the \<open>KeyError\<close> of the lookup.
\<close>

lemma cached_binary_path_fails_iff:
  "(\<exists>e. cached_binary_path self env = Inl e) \<longleftrightarrow> env ''HOME'' = None"
  by (simp add: cached_binary_path_def cached_binary_root_def Let_def split: option.splits)

lemma cached_binary_path_error:
  "cached_binary_path self env = Inl e \<Longrightarrow> e = KeyError ''HOME''"
  by (simp add: cached_binary_path_def cached_binary_root_def Let_def split: option.splits)

text \<open>
  C1. The claim: the cache path fails exactly when \<open>XDG_CACHE_HOME\<close> and \<open>HOME\<close> are both
  absent, so that it succeeds whenever \<open>XDG_CACHE_HOME\<close> is set. The code looks \<open>HOME\<close> up
  while it builds the default it passes to \<open>os.environ.get\<close>: with
  \<open>XDG_CACHE_HOME=/tmp/c\<close> and no \<open>HOME\<close>, \<open>cached_binary_path\<close> of \<open>foo\<close> 1.0 raises
  \<open>KeyError('HOME')\<close> instead of returning \<open>/tmp/c/foo/1.0/foo\<close>.
\<close>

theorem cached_binary_path_xdg_set_home_unset:
  "cached_binary_path (init ''foo'' ''1.0'') [''XDG_CACHE_HOME'' \<mapsto> ''/tmp/c'']
     = Inl (KeyError ''HOME'')"
  by (simp add: cached_binary_path_def cached_binary_root_def)

text \<open>How \<open>os.path.join\<close> behaves on plain roots and segments.\<close>

lemma join_step_plain:
  "plain_root a \<Longrightarrow> \<not> startswith_sep b \<Longrightarrow> join_step a b = a @ CHR ''/'' # b"
  by (simp add: join_step_def plain_root_def sep_def)

lemma plain_root_append:
  "plain_segment b \<Longrightarrow> plain_root (a @ CHR ''/'' # b)"
  by (auto simp add: plain_root_def plain_segment_def endswith_sep_def split: list.splits)

lemma plain_root_cache: "plain_root (h @ ''/.cache'')"
  by (simp add: plain_root_def endswith_sep_def sep_def)

lemma not_startswith_sep_cache: "\<not> startswith_sep ''.cache''"
  by (simp add: startswith_sep_def sep_def)

lemma join_three_plain:
  assumes "plain_root r" and "plain_segment b" and "plain_segment v"
  shows "os_path_join (os_path_join r [b]) [v, b]
           = r @ CHR ''/'' # b @ CHR ''/'' # v @ CHR ''/'' # b"
proof -
  have nb: "\<not> startswith_sep b" and nv: "\<not> startswith_sep v"
    using assms(2,3) by (simp_all add: plain_segment_def)
  have s1: "join_step r b = r @ CHR ''/'' # b"
    using assms(1) nb by (rule join_step_plain)
  have s2: "join_step (r @ CHR ''/'' # b) v = r @ CHR ''/'' # b @ CHR ''/'' # v"
    using join_step_plain [OF plain_root_append [OF assms(2)] nv, of r] by simp
  have "plain_root (r @ CHR ''/'' # b @ CHR ''/'' # v)"
    using plain_root_append [OF assms(3), of "r @ CHR ''/'' # b"] by simp
  then have s3: "join_step (r @ CHR ''/'' # b @ CHR ''/'' # v) b
                   = r @ CHR ''/'' # b @ CHR ''/'' # v @ CHR ''/'' # b"
    using join_step_plain [OF _ nb, of "r @ CHR ''/'' # b @ CHR ''/'' # v"] by simp
  show ?thesis
    by (simp add: os_path_join_def s1 s2 s3)
qed

text \<open>
  C2, as amended. In every environment with \<open>HOME\<close> set, for a binary name and a version
  that are not empty and neither start nor end with the separator, and a cache root (the
  value of \<open>XDG_CACHE_HOME\<close> if set, \<open><HOME>/.cache\<close> otherwise) that is built from a
  non-empty value without a trailing separator, \<open>cached_binary_path\<close> returns
  \<open><cache_root>/<binary_name>/<version>/<binary_name>\<close>.
\<close>

theorem cached_binary_path_plain:
  assumes "env ''HOME'' = Some h"
    and "spec_cached_binary_path self env = Some p"
    and "case env ''XDG_CACHE_HOME'' of Some x \<Rightarrow> plain_root x | None \<Rightarrow> plain_root h"
    and "plain_segment (binary_name self)"
    and "plain_segment (version self)"
  shows "cached_binary_path self env = Inr p"
proof (cases "env ''XDG_CACHE_HOME''")
  case None
  then have "plain_root h"
    using assms(3) by simp
  then have root: "os_path_join h [''.cache''] = h @ ''/.cache''"
    using join_step_plain [OF _ not_startswith_sep_cache] by (simp add: os_path_join_def)
  have p: "p = (h @ ''/.cache'') @ CHR ''/'' # binary_name self @ CHR ''/'' # version self @
                 CHR ''/'' # binary_name self"
    using assms(2) None assms(1)
    by (simp add: spec_cached_binary_path_def spec_cache_root_def)
  show ?thesis
    using join_three_plain [OF plain_root_cache assms(4,5), of h]
    by (simp add: cached_binary_path_def cached_binary_root_def assms(1) None root p)
next
  case (Some x)
  then have "plain_root x"
    using assms(3) by simp
  moreover have "p = x @ CHR ''/'' # binary_name self @ CHR ''/'' # version self @
                       CHR ''/'' # binary_name self"
    using assms(2) Some by (simp add: spec_cached_binary_path_def spec_cache_root_def)
  ultimately show ?thesis
    using join_three_plain [OF _ assms(4,5), of x]
    by (simp add: cached_binary_path_def cached_binary_root_def assms(1) Some)
qed

text \<open>The scenario of the specification: \<open>foo\<close> 1.0 under \<open>XDG_CACHE_HOME=/tmp/c\<close>.\<close>

theorem cached_binary_path_plain_witness:
  "cached_binary_path (init ''foo'' ''1.0'') example_environ = Inr ''/tmp/c/foo/1.0/foo''"
proof -
  have a: "example_environ ''HOME'' = Some ''/home/u''"
    by (simp add: example_environ_def)
  have b: "spec_cached_binary_path (init ''foo'' ''1.0'') example_environ
             = Some ''/tmp/c/foo/1.0/foo''"
    by (simp add: spec_cached_binary_path_def spec_cache_root_def example_environ_def init_def)
  have c: "case example_environ ''XDG_CACHE_HOME'' of
             Some x \<Rightarrow> plain_root x | None \<Rightarrow> plain_root ''/home/u''"
    by (simp add: example_environ_def plain_root_def endswith_sep_def sep_def)
  have d: "plain_segment (binary_name (init ''foo'' ''1.0''))"
    by (simp add: init_def plain_segment_def startswith_sep_def endswith_sep_def sep_def)
  have e: "plain_segment (version (init ''foo'' ''1.0''))"
    by (simp add: init_def plain_segment_def startswith_sep_def endswith_sep_def sep_def)
  show ?thesis
    using cached_binary_path_plain [OF a b c d e] .
qed

text \<open>
  C2 as stated fails: with \<open>XDG_CACHE_HOME=/tmp/c/\<close> the code returns \<open>/tmp/c/foo/1.0/foo\<close>,
  which is not the cache root followed by \<open>/foo/1.0/foo\<close>.
\<close>

theorem cached_binary_path_trailing_separator:
  "cached_binary_path (init ''foo'' ''1.0'')
       [''HOME'' \<mapsto> ''/home/u'', ''XDG_CACHE_HOME'' \<mapsto> ''/tmp/c/'']
     = Inr ''/tmp/c/foo/1.0/foo'' \<and>
   spec_cached_binary_path (init ''foo'' ''1.0'')
       [''HOME'' \<mapsto> ''/home/u'', ''XDG_CACHE_HOME'' \<mapsto> ''/tmp/c/'']
     = Some ''/tmp/c//foo/1.0/foo''"
  by (simp add: cached_binary_path_def cached_binary_root_def spec_cached_binary_path_def
      spec_cache_root_def init_def path_defs)

text \<open>A component that starts with the separator discards the cache root altogether.\<close>

lemma cached_binary_path_absolute_name:
  "cached_binary_path (init ''/foo'' ''1.0'') example_environ = Inr ''/foo''"
  by (simp add: cached_binary_path_def cached_binary_root_def example_environ_def init_def
      path_defs)

text \<open>
  The conditions are needed: when \<open>XDG_CACHE_HOME\<close> is set, the code returns the path the
  specification words exactly when the root and the two segments are plain.
\<close>

lemma join_step_length_le: "length (join_step a b) \<le> length a + 1 + length b"
  by (simp add: join_step_def)

lemma join_step_full_length:
  "length (join_step a b) = length a + 1 + length b \<longleftrightarrow> plain_root a \<and> \<not> startswith_sep b"
  by (auto simp add: join_step_def plain_root_def)

lemma plain_root_append_iff:
  "plain_root (a @ CHR ''/'' # b) \<longleftrightarrow> b \<noteq> [] \<and> \<not> endswith_sep b"
  by (cases b rule: rev_cases) (simp_all add: plain_root_def endswith_sep_def sep_def)

lemma join_three_plain_iff:
  "os_path_join (os_path_join r [b]) [v, b] = r @ CHR ''/'' # b @ CHR ''/'' # v @ CHR ''/'' # b
     \<longleftrightarrow> plain_root r \<and> plain_segment b \<and> plain_segment v"
proof
  assume "plain_root r \<and> plain_segment b \<and> plain_segment v"
  then show "os_path_join (os_path_join r [b]) [v, b]
               = r @ CHR ''/'' # b @ CHR ''/'' # v @ CHR ''/'' # b"
    by (simp add: join_three_plain)
next
  let ?p1 = "join_step r b"
  let ?p2 = "join_step ?p1 v"
  let ?p3 = "join_step ?p2 b"
  assume "os_path_join (os_path_join r [b]) [v, b]
            = r @ CHR ''/'' # b @ CHR ''/'' # v @ CHR ''/'' # b"
  then have "?p3 = r @ CHR ''/'' # b @ CHR ''/'' # v @ CHR ''/'' # b"
    by (simp add: os_path_join_def)
  then have len: "length ?p3 = length r + length b + length v + length b + 3"
    by simp
  have l1: "length ?p1 \<le> length r + 1 + length b"
    and l2: "length ?p2 \<le> length ?p1 + 1 + length v"
    and l3: "length ?p3 \<le> length ?p2 + 1 + length b"
    by (rule join_step_length_le)+
  have e1: "length ?p1 = length r + 1 + length b"
    and e2: "length ?p2 = length ?p1 + 1 + length v"
    and e3: "length ?p3 = length ?p2 + 1 + length b"
    using len l1 l2 l3 by linarith+
  have s1: "plain_root r" "\<not> startswith_sep b"
    using e1 join_step_full_length [of r b] by simp_all
  then have p1: "?p1 = r @ CHR ''/'' # b"
    by (simp add: join_step_plain)
  have s2: "plain_root ?p1" "\<not> startswith_sep v"
    using e2 join_step_full_length [of ?p1 v] by simp_all
  then have p2: "?p2 = r @ CHR ''/'' # b @ CHR ''/'' # v"
    using join_step_plain [of ?p1 v] by (simp add: p1)
  have s3: "plain_root ?p2"
    using e3 join_step_full_length [of ?p2 b] by simp
  have "b \<noteq> [] \<and> \<not> endswith_sep b"
    using s2(1) by (simp add: p1 plain_root_append_iff)
  moreover have "v \<noteq> [] \<and> \<not> endswith_sep v"
    using s3 plain_root_append_iff [of "r @ CHR ''/'' # b" v] by (simp add: p2)
  ultimately show "plain_root r \<and> plain_segment b \<and> plain_segment v"
    using s1 s2(2) by (simp add: plain_segment_def)
qed

lemma cached_binary_path_plain_iff:
  assumes "env ''HOME'' = Some h" and "env ''XDG_CACHE_HOME'' = Some x"
  shows "map_option Inr (spec_cached_binary_path self env) = Some (cached_binary_path self env)
           \<longleftrightarrow> plain_root x \<and> plain_segment (binary_name self) \<and> plain_segment (version self)"
  using join_three_plain_iff [of x "binary_name self" "version self"]
  by (simp add: cached_binary_path_def cached_binary_root_def spec_cached_binary_path_def
      spec_cache_root_def assms eq_commute)

lemma str_format_REMOTE_URL:
  "str_format REMOTE_URL [''binary_name'' \<mapsto> b, ''version'' \<mapsto> v] =
     Inr (''https://storage.googleapis.com/pre-commit-assets/'' @ b @ ''/'' @ v @ ''/bin/'' @ b)"
  by (simp add: REMOTE_URL_def)

text \<open>
  C8. \<open>remote_binary_url\<close> returns \<open>override_url\<close> when it is set (by the source's test:
  a non-empty string), and otherwise the default template with the binary name and the
  version of the instance put in.
\<close>

theorem remote_binary_url_override_or_template:
  "(\<forall>u. override_url self = Some u \<and> u \<noteq> [] \<longrightarrow> remote_binary_url self = Inr u) \<and>
   (\<not> truthy (override_url self) \<longrightarrow>
      remote_binary_url self =
        Inr (''https://storage.googleapis.com/pre-commit-assets/'' @ binary_name self @ ''/'' @
             version self @ ''/bin/'' @ binary_name self))"
  by (simp add: remote_binary_url_def str_format_REMOTE_URL truthy_def split: option.splits)

theorem remote_binary_url_override_or_template_witness:
  "remote_binary_url (init ''foo'' ''1.0'' \<lparr> override_url := Some ''https://example.com/foo'' \<rparr>)
     = Inr ''https://example.com/foo'' \<and>
   remote_binary_url (init ''foo'' ''1.0'')
     = Inr ''https://storage.googleapis.com/pre-commit-assets/foo/1.0/bin/foo''"
  using remote_binary_url_override_or_template
          [of "init ''foo'' ''1.0'' \<lparr> override_url := Some ''https://example.com/foo'' \<rparr>"]
        remote_binary_url_override_or_template [of "init ''foo'' ''1.0''"]
  by (simp add: init_def truthy_def)

text \<open>
  C9. \<open>cached_binary_path\<close> is a function of the binary name, the version and the two
  environment variables it reads, and of nothing else: two instances that agree on the
  first two, in two environments that agree on the last two, get the same result, be it a
  path or the exception. In particular two calls with nothing changed in between return
  the same string.
\<close>

theorem cached_binary_path_deterministic:
  assumes "binary_name a = binary_name b" and "version a = version b"
    and "env ''HOME'' = env' ''HOME''"
    and "env ''XDG_CACHE_HOME'' = env' ''XDG_CACHE_HOME''"
  shows "cached_binary_path a env = cached_binary_path b env'"
  by (simp add: cached_binary_path_def cached_binary_root_def assms split: option.splits)

theorem cached_binary_path_deterministic_witness:
  "cached_binary_path (init ''foo'' ''1.0'') example_environ
     = cached_binary_path
         (handle_arguments (init ''foo'' ''1.0'') [''override_foo_url'' \<mapsto> ''https://example.com/foo''])
         (example_environ(''LANG'' \<mapsto> ''C''))"
proof -
  let ?a = "init ''foo'' ''1.0''"
  let ?b = "handle_arguments (init ''foo'' ''1.0'')
              [''override_foo_url'' \<mapsto> ''https://example.com/foo'']"
  have n: "binary_name ?a = binary_name ?b" and v: "version ?a = version ?b"
    by (simp_all add: handle_arguments_def)
  have h: "example_environ ''HOME'' = (example_environ(''LANG'' \<mapsto> ''C'')) ''HOME''"
    and x: "example_environ ''XDG_CACHE_HOME''
              = (example_environ(''LANG'' \<mapsto> ''C'')) ''XDG_CACHE_HOME''"
    by simp_all
  show ?thesis
    using cached_binary_path_deterministic [OF n v h x] .
qed

section \<open>Download\<close>

subsection \<open>What the host operations leave alone\<close>

lemma fetched_append: "fetched (xs @ ys) = fetched xs @ fetched ys"
  by (induction xs rule: fetched.induct) simp_all

lemma spawned_append: "spawned (xs @ ys) = spawned xs @ spawned ys"
  by (induction xs rule: spawned.induct) simp_all

lemma warnings_append: "warnings (xs @ ys) = warnings xs @ warnings ys"
  by (induction xs rule: warnings.induct) simp_all

lemmas trace_append = fetched_append spawned_append warnings_append

lemma urlretrieve_frame:
  assumes "urlretrieve url w = (r, w1)"
  shows "environ w1 = environ w" "program w1 = program w" "chmod_ok w1 = chmod_ok w"
    "trace w1 = trace w @ [Fetch url]"
  using assms by (auto simp add: urlretrieve_def Let_def split: option.splits)

lemma os_makedirs_frame:
  assumes "os_makedirs d w = (r, w1)"
  shows "environ w1 = environ w" "program w1 = program w" "chmod_ok w1 = chmod_ok w"
    "trace w1 = trace w"
  using assms by (auto simp add: os_makedirs_def split: option.splits node.splits if_splits)

lemma os_rename_frame:
  assumes "os_rename src dst w = (r, w1)"
  shows "environ w1 = environ w" "program w1 = program w" "chmod_ok w1 = chmod_ok w"
    "trace w1 = trace w"
  using assms by (auto simp add: os_rename_def split: option.splits if_splits)

lemma os_rename_exists:
  "os_rename src dst w = (Inr r, w1) \<Longrightarrow> os_path_exists w1 dst"
  by (auto simp add: os_rename_def os_path_exists_def split: option.splits if_splits)

lemma os_rename_other:
  "os_rename src dst w = (Inr r, w1) \<Longrightarrow> q \<noteq> src \<Longrightarrow> os_path_exists w q \<Longrightarrow> os_path_exists w1 q"
  by (auto simp add: os_rename_def os_path_exists_def split: option.splits if_splits)

lemma shutil_move_frame:
  assumes "shutil_move src dst w = (r, w1)"
  shows "environ w1 = environ w" "program w1 = program w" "chmod_ok w1 = chmod_ok w"
    "trace w1 = trace w"
proof -
  have "w1 = w \<or> (\<exists>d. os_rename src d w = (r, w1))"
    using assms
    by (simp add: shutil_move_def Let_def split: option.splits node.splits if_splits) blast+
  then show "environ w1 = environ w" "program w1 = program w" "chmod_ok w1 = chmod_ok w"
    "trace w1 = trace w"
    using os_rename_frame by blast+
qed

lemma shutil_move_exists:
  assumes "shutil_move src dst w = (Inr r, w1)"
  shows "os_path_exists w1 dst"
proof (cases "files w dst")
  case None
  then have "os_rename src dst w = (Inr r, w1)"
    using assms by (simp add: shutil_move_def)
  then show ?thesis by (rule os_rename_exists)
next
  case (Some n)
  show ?thesis
  proof (cases n)
    case (RegularFile c m)
    then have "os_rename src dst w = (Inr r, w1)"
      using assms Some by (simp add: shutil_move_def)
    then show ?thesis by (rule os_rename_exists)
  next
    case (Directory m)
    have ex: "os_path_exists w dst"
      using Some by (simp add: os_path_exists_def)
    show ?thesis
    proof (cases "src = dst")
      case True
      then show ?thesis
        using assms Some Directory ex by (simp add: shutil_move_def)
    next
      case False
      then have "os_rename src (os_path_join dst [shutil_basename src]) w = (Inr r, w1)"
        using assms Some Directory by (simp add: shutil_move_def Let_def split: if_splits)
      then show ?thesis
        using False ex by (rule os_rename_other [OF _ not_sym])
    qed
  qed
qed

lemma os_chmod_frame:
  assumes "os_chmod p m w = (r, w1)"
  shows "environ w1 = environ w" "program w1 = program w" "chmod_ok w1 = chmod_ok w"
    "trace w1 = trace w" "os_path_exists w1 q = os_path_exists w q"
  using assms by (auto simp add: os_chmod_def os_path_exists_def split: option.splits if_splits)

lemma os_chmod_error:
  "os_chmod p m w = (Inl e, w1) \<Longrightarrow> e = OSError ''FileNotFoundError'' \<or> e = OSError ''PermissionError''"
  by (auto simp add: os_chmod_def split: option.splits if_splits)

lemma mode_bits:
  "S_IRUSR OR S_IWUSR OR S_IXUSR OR S_IRGRP OR S_IXGRP OR S_IROTH OR S_IXOTH = 493"
  by (simp add: S_IRUSR_def S_IWUSR_def S_IXUSR_def S_IRGRP_def S_IXGRP_def S_IROTH_def
      S_IXOTH_def)

lemma fix_file_permissions_cases:
  obtains (changed) w1 where "os_chmod p 493 w = (Inr (), w1)"
      "fix_file_permissions p w = (Inr (), w1)"
  | (failed) ex w1 where "os_chmod p 493 w = (Inl (OSError ex), w1)"
      "fix_file_permissions p w =
         (Inr (), log_warning (''Failed to set chmod 755 for '' @ p @ '': '' @ ex) w1)"
proof (cases "os_chmod p 493 w")
  case (Pair r w1)
  show thesis
  proof (cases r)
    case (Inr u)
    then show thesis
      using Pair changed by (simp add: fix_file_permissions_def mode_bits)
  next
    case (Inl e)
    then obtain ex where "e = OSError ex"
      using Pair os_chmod_error by blast
    then show thesis
      using Pair Inl failed by (simp add: fix_file_permissions_def mode_bits)
  qed
qed

lemma fix_file_permissions_returns: "fst (fix_file_permissions p w) = Inr ()"
  by (rule fix_file_permissions_cases [of p w]) simp_all

lemma fix_file_permissions_frame:
  assumes "fix_file_permissions p w = (r, w1)"
  shows "environ w1 = environ w" "program w1 = program w" "chmod_ok w1 = chmod_ok w"
    "fetched (trace w1) = fetched (trace w)" "spawned (trace w1) = spawned (trace w)"
    "os_path_exists w1 q = os_path_exists w q"
proof -
  have "environ w1 = environ w \<and> program w1 = program w \<and> chmod_ok w1 = chmod_ok w \<and>
        fetched (trace w1) = fetched (trace w) \<and> spawned (trace w1) = spawned (trace w) \<and>
        os_path_exists w1 q = os_path_exists w q"
  proof (rule fix_file_permissions_cases [of p w])
    fix w2
    assume c: "os_chmod p 493 w = (Inr (), w2)" and "fix_file_permissions p w = (Inr (), w2)"
    then show ?thesis
      using assms os_chmod_frame [OF c] by simp
  next
    fix ex w2
    assume c: "os_chmod p 493 w = (Inl (OSError ex), w2)"
      and "fix_file_permissions p w =
         (Inr (), log_warning (''Failed to set chmod 755 for '' @ p @ '': '' @ ex) w2)"
    then show ?thesis
      using assms os_chmod_frame [OF c]
      by (auto simp add: log_warning_def trace_append os_path_exists_def)
  qed
  then show "environ w1 = environ w" "program w1 = program w" "chmod_ok w1 = chmod_ok w"
    "fetched (trace w1) = fetched (trace w)" "spawned (trace w1) = spawned (trace w)"
    "os_path_exists w1 q = os_path_exists w q"
    by simp_all
qed

subsection \<open>\<open>download_binary\<close>\<close>

lemma download_binary_cached:
  assumes "cached_binary_path self (environ w) = Inr p" and "os_path_exists w p"
  shows "download_binary self w =
           (Inr p, log_info (''Already found '' @ binary_name self @ '' at '' @ p) w)"
  using assms by (simp add: download_binary_def)

lemma download_binary_cases:
  assumes "download_binary self w = (Inr p, w')"
  obtains (cached) "cached_binary_path self (environ w) = Inr p" "os_path_exists w p"
      "w' = log_info (''Already found '' @ binary_name self @ '' at '' @ p) w"
  | (downloaded) url tmp w1 w2 r w3 w4 where
      "cached_binary_path self (environ w) = Inr p" "\<not> os_path_exists w p"
      "remote_binary_url self = Inr url" "urlretrieve url w = (Inr tmp, w1)"
      "os_makedirs (os_path_dirname p) w1 = (Inr (), w2)"
      "shutil_move tmp p w2 = (Inr r, w3)"
      "fix_file_permissions p w3 = (Inr (), w4)"
      "w' = log_info (''Downloaded '' @ binary_name self @ '' from '' @ url @ '' to '' @ tmp @
                      '' and then moved to '' @ p) w4"
  using assms unfolding download_binary_def
  by (simp split: sum.splits if_splits prod.splits)

lemma download_binary_frame:
  assumes "download_binary self w = (r, w')"
  shows "environ w' = environ w \<and> program w' = program w \<and>
         spawned (trace w') = spawned (trace w) \<and>
         length (fetched (trace w')) \<le> length (fetched (trace w)) + 1"
proof (cases "cached_binary_path self (environ w)")
  case (Inl e)
  then show ?thesis
    using assms by (simp add: download_binary_def)
next
  case (Inr p)
  show ?thesis
  proof (cases "os_path_exists w p")
    case True
    then show ?thesis
      using assms Inr by (auto simp add: download_binary_def log_info_def trace_append)
  next
    case False
    obtain url where url: "remote_binary_url self = Inr url"
      by (cases "remote_binary_url self")
        (simp_all add: remote_binary_url_def str_format_REMOTE_URL split: option.splits if_splits)
    obtain r1 w1 where u: "urlretrieve url w = (r1, w1)"
      by (cases "urlretrieve url w")
    note f1 = urlretrieve_frame [OF u]
    show ?thesis
    proof (cases r1)
      case (Inl e)
      then show ?thesis
        using assms Inr False url u f1 by (auto simp add: download_binary_def trace_append)
    next
      case tmp: (Inr tmp)
      obtain r2 w2 where m: "os_makedirs (os_path_dirname p) w1 = (r2, w2)"
        by (cases "os_makedirs (os_path_dirname p) w1")
      note f2 = os_makedirs_frame [OF m]
      show ?thesis
      proof (cases r2)
        case (Inl e)
        then show ?thesis
          using assms Inr False url u tmp m f1 f2
          by (auto simp add: download_binary_def trace_append)
      next
        case made: (Inr u2)
        obtain r3 w3 where mv: "shutil_move tmp p w2 = (r3, w3)"
          by (cases "shutil_move tmp p w2")
        note f3 = shutil_move_frame [OF mv]
        show ?thesis
        proof (cases r3)
          case (Inl e)
          then show ?thesis
            using assms Inr False url u tmp m made mv f1 f2 f3
            by (auto simp add: download_binary_def trace_append)
        next
          case moved: (Inr dst)
          obtain r4 w4 where fx: "fix_file_permissions p w3 = (r4, w4)"
            by (cases "fix_file_permissions p w3")
          note f4 = fix_file_permissions_frame [OF fx]
          have r4: "r4 = Inr ()"
            using fix_file_permissions_returns [of p w3] fx by simp
          show ?thesis
            using assms Inr False url u tmp m made mv moved fx r4 f1 f2 f3 f4(1,2,4,5)
            by (auto simp add: download_binary_def log_info_def trace_append)
        qed
      qed
    qed
  qed
qed

lemma download_binary_exists:
  assumes "download_binary self w = (Inr p, w')"
  shows "cached_binary_path self (environ w') = Inr p \<and> os_path_exists w' p"
proof (rule download_binary_cases [OF assms])
  assume "cached_binary_path self (environ w) = Inr p" "os_path_exists w p"
    "w' = log_info (''Already found '' @ binary_name self @ '' at '' @ p) w"
  then show ?thesis
    by (simp add: log_info_def os_path_exists_def)
next
  fix url tmp w1 w2 r w3 w4
  assume p: "cached_binary_path self (environ w) = Inr p"
    and u: "urlretrieve url w = (Inr tmp, w1)"
    and m: "os_makedirs (os_path_dirname p) w1 = (Inr (), w2)"
    and mv: "shutil_move tmp p w2 = (Inr r, w3)"
    and fx: "fix_file_permissions p w3 = (Inr (), w4)"
    and w': "w' = log_info (''Downloaded '' @ binary_name self @ '' from '' @ url @ '' to '' @
                            tmp @ '' and then moved to '' @ p) w4"
  have "os_path_exists w4 p"
    using shutil_move_exists [OF mv] fix_file_permissions_frame(6) [OF fx] by simp
  moreover have "environ w4 = environ w"
    using urlretrieve_frame(1) [OF u] os_makedirs_frame(1) [OF m] shutil_move_frame(1) [OF mv]
      fix_file_permissions_frame(1) [OF fx] by simp
  ultimately show ?thesis
    using p w' by (simp add: log_info_def os_path_exists_def)
qed

lemma cached_binary_path_override_url:
  "cached_binary_path (self \<lparr> override_url := u \<rparr>) env = cached_binary_path self env"
  by (simp add: cached_binary_path_def cached_binary_root_def split: option.splits)


text \<open>The first download on the example host, evaluated.\<close>

lemma example_download:
  "fst (download_binary (init ''foo'' ''1.0'') example_world) = Inr ''/tmp/c/foo/1.0/foo''"
  "trace (snd (download_binary (init ''foo'' ''1.0'') example_world)) =
     [Fetch ''https://storage.googleapis.com/pre-commit-assets/foo/1.0/bin/foo'',
      LogInfo (''Downloaded foo from https://storage.googleapis.com/pre-commit-assets/foo/1.0/bin/foo'' @
               '' to /tmp/tmpabc and then moved to /tmp/c/foo/1.0/foo'')]"
  "files (snd (download_binary (init ''foo'' ''1.0'') example_world)) ''/tmp/c/foo/1.0/foo''
     = Some (RegularFile ''#!/bin/sh'' 493)"
  "environ (snd (download_binary (init ''foo'' ''1.0'') example_world)) = example_environ"
  by (simp_all add: download_binary_def cached_binary_path_def cached_binary_root_def init_def
      example_world_def example_environ_def path_defs os_path_exists_def remote_binary_url_def
      str_format_REMOTE_URL urlretrieve_def os_makedirs_def os_path_dirname_def shutil_move_def
      os_rename_def fix_file_permissions_def os_chmod_def mode_bits set_mode_def log_info_def
      Let_def)

text \<open>
  C3. When a file exists at the cache path, \<open>download_binary\<close> returns that path at once:
  only the log record is added, no fetch is started, and \<open>override_url\<close> (whatever it is
  set to) is not looked at. Hence after a call that returned a path, a second call returns
  the same path without a fetch, and the two calls together have started at most one.
\<close>

theorem download_binary_idempotent:
  "(cached_binary_path self (environ w) = Inr p \<and> os_path_exists w p \<longrightarrow>
      download_binary (self \<lparr> override_url := u \<rparr>) w =
        (Inr p, log_info (''Already found '' @ binary_name self @ '' at '' @ p) w) \<and>
      fetched (trace (snd (download_binary (self \<lparr> override_url := u \<rparr>) w)))
        = fetched (trace w)) \<and>
   (download_binary self w = (Inr p', w') \<longrightarrow>
      fst (download_binary self w') = Inr p' \<and>
      fetched (trace (snd (download_binary self w'))) = fetched (trace w') \<and>
      length (fetched (trace w')) \<le> length (fetched (trace w)) + 1)"
proof (intro conjI impI)
  assume a: "cached_binary_path self (environ w) = Inr p \<and> os_path_exists w p"
  then have "cached_binary_path (self \<lparr> override_url := u \<rparr>) (environ w) = Inr p"
    by (simp add: cached_binary_path_override_url)
  then show c: "download_binary (self \<lparr> override_url := u \<rparr>) w =
        (Inr p, log_info (''Already found '' @ binary_name self @ '' at '' @ p) w)"
    using a download_binary_cached [of "self \<lparr> override_url := u \<rparr>" w p] by simp
  show "fetched (trace (snd (download_binary (self \<lparr> override_url := u \<rparr>) w)))
        = fetched (trace w)"
    by (simp add: c log_info_def fetched_append)
next
  assume d: "download_binary self w = (Inr p', w')"
  note e = download_binary_exists [OF d]
  have again: "download_binary self w' =
        (Inr p', log_info (''Already found '' @ binary_name self @ '' at '' @ p') w')"
    using e download_binary_cached by simp
  show "fst (download_binary self w') = Inr p'"
    by (simp add: again)
  show "fetched (trace (snd (download_binary self w'))) = fetched (trace w')"
    by (simp add: again log_info_def fetched_append)
  show "length (fetched (trace w')) \<le> length (fetched (trace w)) + 1"
    using download_binary_frame [OF d] by simp
qed


theorem download_binary_idempotent_witness:
  "fst (download_binary (init ''foo'' ''1.0'') example_world) = Inr ''/tmp/c/foo/1.0/foo'' \<and>
   fst (download_binary (init ''foo'' ''1.0'')
          (snd (download_binary (init ''foo'' ''1.0'') example_world)))
     = Inr ''/tmp/c/foo/1.0/foo'' \<and>
   fetched (trace (snd (download_binary (init ''foo'' ''1.0'')
                          (snd (download_binary (init ''foo'' ''1.0'') example_world)))))
     = [''https://storage.googleapis.com/pre-commit-assets/foo/1.0/bin/foo''] \<and>
   fst (download_binary (init ''foo'' ''1.0'' \<lparr> override_url := Some ''https://example.com/foo'' \<rparr>)
          (snd (download_binary (init ''foo'' ''1.0'') example_world)))
     = Inr ''/tmp/c/foo/1.0/foo''"
proof -
  define W1 where "W1 = snd (download_binary (init ''foo'' ''1.0'') example_world)"
  have first: "download_binary (init ''foo'' ''1.0'') example_world
                 = (Inr ''/tmp/c/foo/1.0/foo'', W1)"
    using example_download(1) by (simp add: W1_def prod_eq_iff)
  have fetched1: "fetched (trace W1)
                    = [''https://storage.googleapis.com/pre-commit-assets/foo/1.0/bin/foo'']"
    by (simp add: W1_def example_download(2))
  have there: "cached_binary_path (init ''foo'' ''1.0'') (environ W1)
                 = Inr ''/tmp/c/foo/1.0/foo'' \<and>
               os_path_exists W1 ''/tmp/c/foo/1.0/foo''"
    using first by (rule download_binary_exists)
  have second: "fst (download_binary (init ''foo'' ''1.0'') W1) = Inr ''/tmp/c/foo/1.0/foo'' \<and>
      fetched (trace (snd (download_binary (init ''foo'' ''1.0'') W1))) = fetched (trace W1)"
    using download_binary_idempotent
      [where self = "init ''foo'' ''1.0''" and w = example_world
         and p' = "''/tmp/c/foo/1.0/foo''" and w' = W1]
      first by simp
  have other: "fst (download_binary
                      (init ''foo'' ''1.0'' \<lparr> override_url := Some ''https://example.com/foo'' \<rparr>)
                      W1)
                 = Inr ''/tmp/c/foo/1.0/foo''"
    using download_binary_idempotent
      [where self = "init ''foo'' ''1.0''" and w = W1 and p = "''/tmp/c/foo/1.0/foo''"
         and u = "Some ''https://example.com/foo''"]
      there by simp
  show ?thesis
    using example_download(1) second other fetched1 unfolding W1_def by simp
qed

subsection \<open>Permission bits\<close>

lemma mode_set_mode: "mode (set_mode m n) = m"
  by (cases n) (simp_all add: set_mode_def)

lemma fix_file_permissions_existing:
  assumes "files w p = Some n"
  shows "fix_file_permissions p w =
           (if chmod_ok w p
            then (Inr (), w \<lparr> files := (files w)(p \<mapsto> set_mode 493 n) \<rparr>)
            else (Inr (), log_warning (''Failed to set chmod 755 for '' @ p @
                                       '': PermissionError'') w))"
  using assms by (simp add: fix_file_permissions_def os_chmod_def mode_bits)

text \<open>The chmod oracle is consulted by \<open>os_chmod\<close> only.\<close>

lemma urlretrieve_chmod_ok:
  "urlretrieve url (w \<lparr> chmod_ok := f \<rparr>) = apsnd (chmod_ok_update (\<lambda>_. f)) (urlretrieve url w)"
  by (simp add: urlretrieve_def Let_def split: option.splits)

lemma os_makedirs_chmod_ok:
  "os_makedirs d (w \<lparr> chmod_ok := f \<rparr>) = apsnd (chmod_ok_update (\<lambda>_. f)) (os_makedirs d w)"
  by (simp add: os_makedirs_def split: option.splits node.splits)

lemma os_rename_chmod_ok:
  "os_rename src dst (w \<lparr> chmod_ok := f \<rparr>)
     = apsnd (chmod_ok_update (\<lambda>_. f)) (os_rename src dst w)"
  by (simp add: os_rename_def split: option.splits)

lemma shutil_move_chmod_ok:
  "shutil_move src dst (w \<lparr> chmod_ok := f \<rparr>)
     = apsnd (chmod_ok_update (\<lambda>_. f)) (shutil_move src dst w)"
  by (simp add: shutil_move_def os_rename_chmod_ok os_path_exists_def Let_def
      split: option.splits node.splits)

lemma download_binary_chmod_ok:
  "fst (download_binary self (w \<lparr> chmod_ok := f \<rparr>)) = fst (download_binary self w)"
proof -
  have fx: "\<And>p v. fst (fix_file_permissions p v) = Inr ()"
    by (rule fix_file_permissions_returns)
  have fx': "\<And>p v r v'. fix_file_permissions p v = (r, v') \<Longrightarrow> r = Inr ()"
    using fx by (metis fst_conv)
  show ?thesis
    by (auto simp add: download_binary_def os_path_exists_def urlretrieve_chmod_ok
        os_makedirs_chmod_ok shutil_move_chmod_ok log_info_def
        split: sum.splits prod.splits dest: fx')
qed

text \<open>
  C7. The bits \<open>fix_file_permissions\<close> sets are those of mode 0755. Whether
  \<open>download_binary\<close> returns a path or raises, and which, does not depend on whether
  \<open>chmod\<close> is let through. After a call that downloaded (no file was at the cache path) and
  returned the path, the node at the path has mode 0755 when \<open>chmod\<close> was let through, and
  otherwise one warning about the failed \<open>chmod\<close> was logged.
\<close>

theorem download_binary_permissions:
  "S_IRUSR OR S_IWUSR OR S_IXUSR OR S_IRGRP OR S_IXGRP OR S_IROTH OR S_IXOTH
     = 7 * 64 + 5 * 8 + 5 \<and>
   fst (download_binary self (w \<lparr> chmod_ok := f \<rparr>)) = fst (download_binary self w) \<and>
   (download_binary self w = (Inr p, w') \<and> \<not> os_path_exists w p \<longrightarrow>
      (if chmod_ok w p
       then map_option mode (files w' p)
              = Some (S_IRUSR OR S_IWUSR OR S_IXUSR OR S_IRGRP OR S_IXGRP OR S_IROTH OR S_IXOTH)
       else warnings (trace w')
              = warnings (trace w) @
                [''Failed to set chmod 755 for '' @ p @ '': PermissionError'']))"
proof (intro conjI impI)
  show "S_IRUSR OR S_IWUSR OR S_IXUSR OR S_IRGRP OR S_IXGRP OR S_IROTH OR S_IXOTH
          = 7 * 64 + 5 * 8 + 5"
    by (simp add: mode_bits)
  show "fst (download_binary self (w \<lparr> chmod_ok := f \<rparr>)) = fst (download_binary self w)"
    by (rule download_binary_chmod_ok)
next
  assume a: "download_binary self w = (Inr p, w') \<and> \<not> os_path_exists w p"
  then have d: "download_binary self w = (Inr p, w')" and absent: "\<not> os_path_exists w p"
    by simp_all
  from d show "if chmod_ok w p
       then map_option mode (files w' p)
              = Some (S_IRUSR OR S_IWUSR OR S_IXUSR OR S_IRGRP OR S_IXGRP OR S_IROTH OR S_IXOTH)
       else warnings (trace w')
              = warnings (trace w) @
                [''Failed to set chmod 755 for '' @ p @ '': PermissionError'']"
  proof (cases rule: download_binary_cases)
    case cached
    then show ?thesis
      using absent by simp
  next
    case (downloaded url tmp w1 w2 r w3 w4)
    obtain n where n: "files w3 p = Some n"
      using shutil_move_exists [OF downloaded(6)] by (auto simp add: os_path_exists_def)
    have ok: "chmod_ok w3 = chmod_ok w"
      using urlretrieve_frame(3) [OF downloaded(4)] os_makedirs_frame(3) [OF downloaded(5)]
        shutil_move_frame(3) [OF downloaded(6)] by simp
    have tr: "trace w3 = trace w @ [Fetch url]"
      using urlretrieve_frame(4) [OF downloaded(4)] os_makedirs_frame(4) [OF downloaded(5)]
        shutil_move_frame(4) [OF downloaded(6)] by simp
    show ?thesis
      using fix_file_permissions_existing [OF n] downloaded(7,8) ok tr
      by (auto simp add: log_info_def log_warning_def warnings_append mode_set_mode mode_bits
          split: if_splits)
  qed
qed

theorem download_binary_permissions_witness:
  "fst (download_binary (init ''foo'' ''1.0'') (example_world \<lparr> chmod_ok := \<lambda>p. False \<rparr>))
     = Inr ''/tmp/c/foo/1.0/foo'' \<and>
   warnings (trace (snd (download_binary (init ''foo'' ''1.0'')
                           (example_world \<lparr> chmod_ok := \<lambda>p. False \<rparr>))))
     = [''Failed to set chmod 755 for /tmp/c/foo/1.0/foo: PermissionError''] \<and>
   map_option mode
     (files (snd (download_binary (init ''foo'' ''1.0'') example_world)) ''/tmp/c/foo/1.0/foo'')
     = Some 493"
proof -
  let ?d = "init ''foo'' ''1.0''"
  let ?p = "''/tmp/c/foo/1.0/foo''"
  let ?v = "example_world \<lparr> chmod_ok := \<lambda>p. False \<rparr>"
  have absent: "\<not> os_path_exists example_world ?p" "\<not> os_path_exists ?v ?p"
    by (simp_all add: os_path_exists_def example_world_def)
  have ok: "chmod_ok example_world ?p" "\<not> chmod_ok ?v ?p"
    by (simp_all add: example_world_def)
  have quiet: "warnings (trace ?v) = []"
    by (simp add: example_world_def)
  have r: "fst (download_binary ?d ?v) = Inr ?p"
    using download_binary_permissions [where self = ?d and w = example_world and f = "\<lambda>p. False"]
      example_download(1) by simp
  then have d: "download_binary ?d ?v = (Inr ?p, snd (download_binary ?d ?v))"
    by (simp add: prod_eq_iff)
  have d': "download_binary ?d example_world
              = (Inr ?p, snd (download_binary ?d example_world))"
    using example_download(1) by (simp add: prod_eq_iff)
  have "warnings (trace (snd (download_binary ?d ?v)))
          = [''Failed to set chmod 755 for /tmp/c/foo/1.0/foo: PermissionError'']"
    using download_binary_permissions [where self = ?d and w = ?v and p = ?p and w' = "snd (download_binary ?d ?v)"
                and f = "\<lambda>p. False"]
      d absent(2) ok(2) quiet by simp
  moreover have "map_option mode (files (snd (download_binary ?d example_world)) ?p) = Some 493"
    using download_binary_permissions [where self = ?d and w = example_world and p = ?p
                and w' = "snd (download_binary ?d example_world)" and f = "\<lambda>p. True"]
      d' absent(1) ok(1) by (simp add: mode_bits)
  ultimately show ?thesis
    using r by simp
qed

section \<open>Running the binary\<close>

subsection \<open>The steps of \<open>run_binary\<close>\<close>

lemma warn_unless_set_up_frame:
  "environ (warn_unless_set_up self w) = environ w"
  "files (warn_unless_set_up self w) = files w"
  "program (warn_unless_set_up self w) = program w"
  "fetched (trace (warn_unless_set_up self w)) = fetched (trace w)"
  "spawned (trace (warn_unless_set_up self w)) = spawned (trace w)"
  by (simp_all add: warn_unless_set_up_def log_warning_def trace_append)

lemma subprocess_run_frame:
  "environ (snd (subprocess_run cmd check encoding kwargs w)) = environ w"
  "files (snd (subprocess_run cmd check encoding kwargs w)) = files w"
  "fetched (trace (snd (subprocess_run cmd check encoding kwargs w))) = fetched (trace w)"
  "spawned (trace (snd (subprocess_run cmd check encoding kwargs w)))
     = spawned (trace w) @ [cmd]"
  by (simp_all add: subprocess_run_def Let_def trace_append split: sum.splits prod.splits)

lemma resolve_binary_path_override:
  "override_path self = Some p \<Longrightarrow> p \<noteq> [] \<Longrightarrow> resolve_binary_path self w = (Inr p, w)"
  by (simp add: resolve_binary_path_def)

lemma resolve_binary_path_download:
  "\<not> truthy (override_path self) \<Longrightarrow> resolve_binary_path self w = download_binary self w"
  by (simp add: resolve_binary_path_def truthy_def split: option.splits)

lemma run_binary_resolved:
  assumes "resolve_binary_path self (warn_unless_set_up self w) = (Inr bp, w1)"
  shows "run_binary self arguments capture_output check encoding kwargs w =
           (if capture_output
            then if kwargs ''stderr'' \<noteq> None \<or> kwargs ''stdout'' \<noteq> None
                 then (Inl (ValueError ''Do not specify both capture_output and stdout/stderr''),
                       w1)
                 else subprocess_run (bp # arguments) check encoding
                        (kwargs(''stderr'' \<mapsto> PIPE, ''stdout'' \<mapsto> PIPE)) w1
            else subprocess_run (bp # arguments) check encoding kwargs w1)"
  using assms by (simp add: run_binary_def Let_def)

lemma run_binary_unresolved:
  assumes "resolve_binary_path self (warn_unless_set_up self w) = (Inl e, w1)"
  shows "run_binary self arguments capture_output check encoding kwargs w = (Inl e, w1)"
  using assms by (simp add: run_binary_def Let_def)

lemma run_binary_effects:
  assumes "resolve_binary_path self (warn_unless_set_up self w) = (Inr bp, w1)"
  shows "fetched (trace (snd (run_binary self arguments capture_output check encoding kwargs w)))
           = fetched (trace w1)"
    and "files (snd (run_binary self arguments capture_output check encoding kwargs w))
           = files w1"
    and "spawned (trace (snd (run_binary self arguments capture_output check encoding kwargs w)))
           = spawned (trace w1) @
             (if capture_output \<and> (kwargs ''stderr'' \<noteq> None \<or> kwargs ''stdout'' \<noteq> None)
              then [] else [bp # arguments])"
  by (simp_all add: run_binary_resolved [OF assms] subprocess_run_frame)


lemma resolve_binary_path_frame:
  assumes "resolve_binary_path self w = (r, w1)"
  shows "program w1 = program w" "spawned (trace w1) = spawned (trace w)"
  using assms download_binary_frame [of self w r w1]
  by (auto simp add: resolve_binary_path_def split: option.splits if_splits)

lemma cached_binary_path_override_path:
  "cached_binary_path (self \<lparr> override_path := x \<rparr>) env = cached_binary_path self env"
  by (simp add: cached_binary_path_def cached_binary_root_def split: option.splits)

lemma remote_binary_url_override_path:
  "remote_binary_url (self \<lparr> override_path := x \<rparr>) = remote_binary_url self"
  by (simp add: remote_binary_url_def split: option.splits)

lemma download_binary_override_path:
  "download_binary (self \<lparr> override_path := x \<rparr>) w = download_binary self w"
  by (simp add: download_binary_def cached_binary_path_override_path
      remote_binary_url_override_path split: sum.splits prod.splits)

lemma warn_unless_set_up_override_path:
  "warn_unless_set_up (self \<lparr> override_path := x \<rparr>) w = warn_unless_set_up self w"
  by (simp add: warn_unless_set_up_def)

subsection \<open>The example host\<close>

lemma init_fields:
  "binary_name (init n v) = n" "version (init n v) = v"
  "override_path (init n v) = None" "override_url (init n v) = None"
  "add_arguments_called (init n v) = False" "handle_arguments_called (init n v) = False"
  by (simp_all add: init_def)

lemma example_warned:
  "warn_unless_set_up (init ''foo'' ''1.0'') w = log_warning setup_warning w"
  "warn_unless_set_up (init ''foo'' ''1.0'' \<lparr> override_path := x \<rparr>) w
     = log_warning setup_warning w"
  by (simp_all add: warn_unless_set_up_def init_def)

lemma example_download_warned:
  "fst (download_binary (init ''foo'' ''1.0'') (log_warning setup_warning example_world))
     = Inr ''/tmp/c/foo/1.0/foo''"
  "fetched (trace (snd (download_binary (init ''foo'' ''1.0'')
                          (log_warning setup_warning example_world))))
     = [''https://storage.googleapis.com/pre-commit-assets/foo/1.0/bin/foo'']"
  "files (snd (download_binary (init ''foo'' ''1.0'')
                 (log_warning setup_warning example_world))) ''/tmp/c/foo/1.0/foo''
     = Some (RegularFile ''#!/bin/sh'' 493)"
  by (simp_all add: download_binary_def cached_binary_path_def cached_binary_root_def init_def
      example_world_def example_environ_def path_defs os_path_exists_def remote_binary_url_def
      str_format_REMOTE_URL urlretrieve_def os_makedirs_def os_path_dirname_def shutil_move_def
      os_rename_def fix_file_permissions_def os_chmod_def mode_bits set_mode_def log_info_def
      log_warning_def trace_append Let_def)

lemma example_download_unreachable:
  "fst (download_binary (init ''foo'' ''1.0'')
          (log_warning setup_warning (example_world \<lparr> remote := Map.empty \<rparr>)))
     = Inl (URLError ''https://storage.googleapis.com/pre-commit-assets/foo/1.0/bin/foo'')"
  by (simp add: download_binary_def cached_binary_path_def cached_binary_root_def init_def
      example_world_def example_environ_def path_defs os_path_exists_def remote_binary_url_def
      str_format_REMOTE_URL urlretrieve_def log_warning_def Let_def)

lemma example_resolved:
  "resolve_binary_path (init ''foo'' ''1.0'')
       (warn_unless_set_up (init ''foo'' ''1.0'') example_world)
     = (Inr ''/tmp/c/foo/1.0/foo'',
        snd (download_binary (init ''foo'' ''1.0'') (log_warning setup_warning example_world)))"
  using example_download_warned(1)
  by (simp add: example_warned resolve_binary_path_def init_fields prod_eq_iff)

subsection \<open>Override path\<close>

text \<open>
  C4. With \<open>override_path\<close> set (by the source's test: a non-empty string), \<open>run_binary\<close>
  starts no fetch and leaves the files alone, whatever the world is (so also whether or not
  the cache file exists), and the only command it can start is \<open>override_path\<close> followed by
  the arguments. With \<open>override_path\<close> unset (or empty) the path comes from
  \<open>download_binary\<close>: its exception is the exception of \<open>run_binary\<close>, and otherwise the
  fetches and files are those it left and the only command started is the path it returned
  followed by the arguments.
\<close>

theorem run_binary_override_path:
  "(override_path self = Some p \<and> p \<noteq> [] \<longrightarrow>
      fetched (trace (snd (run_binary self arguments capture_output check encoding kwargs w)))
        = fetched (trace w) \<and>
      files (snd (run_binary self arguments capture_output check encoding kwargs w)) = files w \<and>
      spawned (trace (snd (run_binary self arguments capture_output check encoding kwargs w)))
        = spawned (trace w) @
          (if capture_output \<and> (kwargs ''stderr'' \<noteq> None \<or> kwargs ''stdout'' \<noteq> None)
           then [] else [p # arguments])) \<and>
   (\<not> truthy (override_path self) \<longrightarrow>
      (case download_binary self (warn_unless_set_up self w) of
         (Inl e, w1) \<Rightarrow>
           run_binary self arguments capture_output check encoding kwargs w = (Inl e, w1)
       | (Inr bp, w1) \<Rightarrow>
           fetched (trace (snd (run_binary self arguments capture_output check encoding kwargs w)))
             = fetched (trace w1) \<and>
           files (snd (run_binary self arguments capture_output check encoding kwargs w))
             = files w1 \<and>
           spawned (trace (snd (run_binary self arguments capture_output check encoding kwargs w)))
             = spawned (trace w) @
               (if capture_output \<and> (kwargs ''stderr'' \<noteq> None \<or> kwargs ''stdout'' \<noteq> None)
                then [] else [bp # arguments])))"
proof (intro conjI impI)
  assume "override_path self = Some p \<and> p \<noteq> []"
  then have r: "resolve_binary_path self (warn_unless_set_up self w)
                  = (Inr p, warn_unless_set_up self w)"
    by (simp add: resolve_binary_path_override)
  show "fetched (trace (snd (run_binary self arguments capture_output check encoding kwargs w)))
        = fetched (trace w)"
    by (simp add: run_binary_effects(1) [OF r] warn_unless_set_up_frame)
  show "files (snd (run_binary self arguments capture_output check encoding kwargs w)) = files w"
    by (simp add: run_binary_effects(2) [OF r] warn_unless_set_up_frame)
  show "spawned (trace (snd (run_binary self arguments capture_output check encoding kwargs w)))
        = spawned (trace w) @
          (if capture_output \<and> (kwargs ''stderr'' \<noteq> None \<or> kwargs ''stdout'' \<noteq> None)
           then [] else [p # arguments])"
    by (simp add: run_binary_effects(3) [OF r] warn_unless_set_up_frame)
next
  assume "\<not> truthy (override_path self)"
  then have r: "resolve_binary_path self (warn_unless_set_up self w)
                  = download_binary self (warn_unless_set_up self w)"
    by (rule resolve_binary_path_download)
  obtain res w1 where d: "download_binary self (warn_unless_set_up self w) = (res, w1)"
    by (cases "download_binary self (warn_unless_set_up self w)")
  show "case download_binary self (warn_unless_set_up self w) of
         (Inl e, w1) \<Rightarrow>
           run_binary self arguments capture_output check encoding kwargs w = (Inl e, w1)
       | (Inr bp, w1) \<Rightarrow>
           fetched (trace (snd (run_binary self arguments capture_output check encoding kwargs w)))
             = fetched (trace w1) \<and>
           files (snd (run_binary self arguments capture_output check encoding kwargs w))
             = files w1 \<and>
           spawned (trace (snd (run_binary self arguments capture_output check encoding kwargs w)))
             = spawned (trace w) @
               (if capture_output \<and> (kwargs ''stderr'' \<noteq> None \<or> kwargs ''stdout'' \<noteq> None)
                then [] else [bp # arguments])"
  proof (cases res)
    case (Inl e)
    then show ?thesis
      using r d by (simp add: run_binary_unresolved)
  next
    case (Inr bp)
    then have rb: "resolve_binary_path self (warn_unless_set_up self w) = (Inr bp, w1)"
      using r d by simp
    have "spawned (trace w1) = spawned (trace w)"
      using download_binary_frame [OF d] by (simp add: warn_unless_set_up_frame)
    then show ?thesis
      using d Inr by (simp add: run_binary_effects [OF rb])
  qed
qed

theorem run_binary_override_path_witness:
  "fetched (trace (snd (run_binary (init ''foo'' ''1.0'' \<lparr> override_path := Some ''/opt/foo'' \<rparr>)
                          [''--version''] True False ''UTF-8'' Map.empty example_world))) = [] \<and>
   spawned (trace (snd (run_binary (init ''foo'' ''1.0'' \<lparr> override_path := Some ''/opt/foo'' \<rparr>)
                          [''--version''] True False ''UTF-8'' Map.empty example_world)))
     = [[''/opt/foo'', ''--version'']] \<and>
   fetched (trace (snd (run_binary (init ''foo'' ''1.0'') [''--version''] True False ''UTF-8''
                          Map.empty example_world)))
     = [''https://storage.googleapis.com/pre-commit-assets/foo/1.0/bin/foo''] \<and>
   spawned (trace (snd (run_binary (init ''foo'' ''1.0'') [''--version''] True False ''UTF-8''
                          Map.empty example_world)))
     = [[''/tmp/c/foo/1.0/foo'', ''--version'']]"
proof -
  let ?d = "init ''foo'' ''1.0''"
  let ?o = "init ''foo'' ''1.0'' \<lparr> override_path := Some ''/opt/foo'' \<rparr>"
  have quiet: "fetched (trace example_world) = []" "spawned (trace example_world) = []"
    by (simp_all add: example_world_def)
  have unset: "\<not> truthy (override_path ?d)"
    by (simp add: truthy_def init_fields)
  have d: "download_binary ?d (warn_unless_set_up ?d example_world)
             = (Inr ''/tmp/c/foo/1.0/foo'',
                snd (download_binary ?d (log_warning setup_warning example_world)))"
    using example_download_warned(1) by (simp add: example_warned prod_eq_iff)
  have a: "fetched (trace (snd (run_binary ?o [''--version''] True False ''UTF-8'' Map.empty
                                  example_world))) = [] \<and>
           spawned (trace (snd (run_binary ?o [''--version''] True False ''UTF-8'' Map.empty
                                  example_world))) = [[''/opt/foo'', ''--version'']]"
    using run_binary_override_path [where self = ?o and p = "''/opt/foo''" and arguments = "[''--version'']"
                and capture_output = True and check = False and encoding = "''UTF-8''"
                and kwargs = Map.empty and w = example_world]
      quiet by simp
  have b: "fetched (trace (snd (run_binary ?d [''--version''] True False ''UTF-8'' Map.empty
                                  example_world)))
             = [''https://storage.googleapis.com/pre-commit-assets/foo/1.0/bin/foo''] \<and>
           spawned (trace (snd (run_binary ?d [''--version''] True False ''UTF-8'' Map.empty
                                  example_world))) = [[''/tmp/c/foo/1.0/foo'', ''--version'']]"
    using run_binary_override_path [where self = ?d and arguments = "[''--version'']"
                and capture_output = True and check = False and encoding = "''UTF-8''"
                and kwargs = Map.empty and w = example_world]
      unset d quiet example_download_warned(2) by simp
  show ?thesis
    using a b by simp
qed

subsection \<open>Capture and redirection together\<close>

text \<open>
  C5 as stated fails. On the example host, with no cached file and no override,
  \<open>run_binary(["--version"], stdout=DEVNULL)\<close> raises the \<open>ValueError\<close> only after
  \<open>download_binary\<close> has fetched the binary; and when the fetch fails, the exception is
  the \<open>URLError\<close> of the fetch, not the \<open>ValueError\<close>.
\<close>

theorem run_binary_capture_conflict_after_download:
  "fst (run_binary (init ''foo'' ''1.0'') [''--version''] True True ''UTF-8''
          [''stdout'' \<mapsto> DEVNULL] example_world)
     = Inl (ValueError ''Do not specify both capture_output and stdout/stderr'') \<and>
   fetched (trace example_world) = [] \<and>
   fetched (trace (snd (run_binary (init ''foo'' ''1.0'') [''--version''] True True ''UTF-8''
                          [''stdout'' \<mapsto> DEVNULL] example_world)))
     = [''https://storage.googleapis.com/pre-commit-assets/foo/1.0/bin/foo''] \<and>
   fst (run_binary (init ''foo'' ''1.0'') [''--version''] True True ''UTF-8''
          [''stdout'' \<mapsto> DEVNULL] (example_world \<lparr> remote := Map.empty \<rparr>))
     = Inl (URLError ''https://storage.googleapis.com/pre-commit-assets/foo/1.0/bin/foo'')"
proof -
  let ?d = "init ''foo'' ''1.0''"
  let ?w = "log_warning setup_warning example_world"
  have r: "resolve_binary_path ?d (warn_unless_set_up ?d example_world)
             = (Inr ''/tmp/c/foo/1.0/foo'', snd (download_binary ?d ?w))"
    using example_download_warned(1)
    by (simp add: example_warned resolve_binary_path_def init_fields prod_eq_iff)
  have u: "resolve_binary_path ?d
             (warn_unless_set_up ?d (example_world \<lparr> remote := Map.empty \<rparr>))
           = (Inl (URLError ''https://storage.googleapis.com/pre-commit-assets/foo/1.0/bin/foo''),
              snd (download_binary ?d
                     (log_warning setup_warning (example_world \<lparr> remote := Map.empty \<rparr>))))"
    using example_download_unreachable
    by (simp add: example_warned resolve_binary_path_def init_fields prod_eq_iff)
  show ?thesis
    by (simp add: run_binary_resolved [OF r] run_binary_unresolved [OF u]
        example_download_warned(2)) (simp add: example_world_def)
qed

text \<open>
  C5, as amended. With capture-output enabled and \<open>stdout\<close> or \<open>stderr\<close> among the
  pass-through options, \<open>run_binary\<close> starts no child process and always raises. With
  \<open>override_path\<close> set the exception is the \<open>ValueError\<close> and nothing but the set-up warning
  has happened. Otherwise \<open>download_binary\<close> runs first: its exception is raised if it
  fails, and the \<open>ValueError\<close> is raised, in the world the download left, if it returns.
\<close>

theorem run_binary_capture_conflict:
  assumes "kwargs ''stderr'' \<noteq> None \<or> kwargs ''stdout'' \<noteq> None"
  shows "spawned (trace (snd (run_binary self arguments True check encoding kwargs w)))
           = spawned (trace w) \<and>
         (\<exists>e. fst (run_binary self arguments True check encoding kwargs w) = Inl e) \<and>
         (truthy (override_path self) \<longrightarrow>
            run_binary self arguments True check encoding kwargs w =
              (Inl (ValueError ''Do not specify both capture_output and stdout/stderr''),
               warn_unless_set_up self w)) \<and>
         (\<not> truthy (override_path self) \<longrightarrow>
            (case download_binary self (warn_unless_set_up self w) of
               (Inl e, w1) \<Rightarrow>
                 run_binary self arguments True check encoding kwargs w = (Inl e, w1)
             | (Inr bp, w1) \<Rightarrow>
                 run_binary self arguments True check encoding kwargs w =
                   (Inl (ValueError ''Do not specify both capture_output and stdout/stderr''),
                    w1)))"
proof -
  obtain r w1 where res: "resolve_binary_path self (warn_unless_set_up self w) = (r, w1)"
    by (cases "resolve_binary_path self (warn_unless_set_up self w)")
  have run: "run_binary self arguments True check encoding kwargs w =
               (case r of
                  Inl e \<Rightarrow> (Inl e, w1)
                | Inr bp \<Rightarrow>
                    (Inl (ValueError ''Do not specify both capture_output and stdout/stderr''),
                     w1))"
    using assms res by (cases r) (auto simp add: run_binary_unresolved run_binary_resolved)
  have sp: "spawned (trace w1) = spawned (trace w)"
    using resolve_binary_path_frame(2) [OF res] by (simp add: warn_unless_set_up_frame)
  have 1: "spawned (trace (snd (run_binary self arguments True check encoding kwargs w)))
           = spawned (trace w)"
    using sp by (simp add: run split: sum.splits)
  have 2: "\<exists>e. fst (run_binary self arguments True check encoding kwargs w) = Inl e"
    by (simp add: run split: sum.splits)
  have 3: "run_binary self arguments True check encoding kwargs w =
              (Inl (ValueError ''Do not specify both capture_output and stdout/stderr''),
               warn_unless_set_up self w)" if "truthy (override_path self)"
  proof -
    from that obtain p where "override_path self = Some p" "p \<noteq> []"
      by (auto simp add: truthy_def split: option.splits)
    then have "r = Inr p" "w1 = warn_unless_set_up self w"
      using res by (simp_all add: resolve_binary_path_override)
    then show ?thesis
      by (simp add: run)
  qed
  have 4: "case download_binary self (warn_unless_set_up self w) of
               (Inl e, w1) \<Rightarrow>
                 run_binary self arguments True check encoding kwargs w = (Inl e, w1)
             | (Inr bp, w1) \<Rightarrow>
                 run_binary self arguments True check encoding kwargs w =
                   (Inl (ValueError ''Do not specify both capture_output and stdout/stderr''),
                    w1)" if "\<not> truthy (override_path self)"
  proof -
    have "download_binary self (warn_unless_set_up self w) = (r, w1)"
      using res resolve_binary_path_download [OF that] by simp
    then show ?thesis
      by (simp add: run split: sum.splits)
  qed
  show ?thesis
    using 1 2 3 4 by blast
qed

theorem run_binary_capture_conflict_witness:
  "run_binary (init ''foo'' ''1.0'' \<lparr> override_path := Some ''/opt/foo'' \<rparr>) [''--version'']
       True True ''UTF-8'' [''stdout'' \<mapsto> DEVNULL] example_world
     = (Inl (ValueError ''Do not specify both capture_output and stdout/stderr''),
        log_warning setup_warning example_world) \<and>
   spawned (trace (snd (run_binary (init ''foo'' ''1.0'') [''--version''] True True ''UTF-8''
                          [''stdout'' \<mapsto> DEVNULL] example_world))) = []"
proof -
  let ?o = "init ''foo'' ''1.0'' \<lparr> override_path := Some ''/opt/foo'' \<rparr>"
  have k: "[''stdout'' \<mapsto> DEVNULL] ''stderr'' \<noteq> None \<or> [''stdout'' \<mapsto> DEVNULL] ''stdout'' \<noteq> None"
    by simp
  have set: "truthy (override_path ?o)"
    by (simp add: truthy_def)
  have quiet: "spawned (trace example_world) = []"
    by (simp add: example_world_def)
  have a: "run_binary ?o [''--version''] True True ''UTF-8'' [''stdout'' \<mapsto> DEVNULL]
             example_world
           = (Inl (ValueError ''Do not specify both capture_output and stdout/stderr''),
              warn_unless_set_up ?o example_world)"
    using run_binary_capture_conflict [OF k, where self = ?o and arguments = "[''--version'']" and check = True
                and encoding = "''UTF-8''" and w = example_world]
      set by blast
  have b: "spawned (trace (snd (run_binary (init ''foo'' ''1.0'') [''--version''] True True
                                  ''UTF-8'' [''stdout'' \<mapsto> DEVNULL] example_world)))
           = spawned (trace example_world)"
    using run_binary_capture_conflict [OF k, where self = "init ''foo'' ''1.0''" and arguments = "[''--version'']"
                and check = True and encoding = "''UTF-8''" and w = example_world]
    by blast
  show ?thesis
    using a b quiet by (simp only: example_warned)
qed

subsection \<open>Exit codes\<close>

text \<open>
  C6. When the binary path resolves, the capture options do not conflict and the child
  process runs to an exit code: with \<open>check\<close> enabled and a non-zero exit code \<open>run_binary\<close>
  raises \<open>CalledProcessError\<close> with the exit code, the command and the captured streams;
  in every other case (check disabled, or exit code zero) it returns the completed process
  with that exit code.
\<close>

theorem run_binary_check:
  assumes "resolve_binary_path self (warn_unless_set_up self w) = (Inr bp, w1)"
    and "\<not> (capture_output \<and> (kwargs ''stderr'' \<noteq> None \<or> kwargs ''stdout'' \<noteq> None))"
    and "program w (bp # arguments) encoding
           (if capture_output then kwargs(''stderr'' \<mapsto> PIPE, ''stdout'' \<mapsto> PIPE) else kwargs)
           = Inr (rc, out, err)"
  shows "fst (run_binary self arguments capture_output check encoding kwargs w) =
           (if check \<and> rc \<noteq> 0
            then Inl (CalledProcessError rc (bp # arguments) out err)
            else Inr (CompletedProcess (bp # arguments) rc out err))"
proof -
  have "program w1 = program w"
    using resolve_binary_path_frame(1) [OF assms(1)] by (simp add: warn_unless_set_up_frame)
  then show ?thesis
    using assms(2,3)
    by (auto simp add: run_binary_resolved [OF assms(1)] subprocess_run_def Let_def)
qed

theorem run_binary_check_witness:
  "fst (run_binary (init ''foo'' ''1.0'') [''--version''] True True ''UTF-8'' Map.empty
          example_world)
     = Inl (CalledProcessError 1 [''/tmp/c/foo/1.0/foo'', ''--version''] (Some []) (Some ''boom'')) \<and>
   fst (run_binary (init ''foo'' ''1.0'') [''--version''] True False ''UTF-8'' Map.empty
          example_world)
     = Inr (CompletedProcess [''/tmp/c/foo/1.0/foo'', ''--version''] 1 (Some []) (Some ''boom''))"
proof -
  have k: "\<not> (True \<and> (Map.empty ''stderr'' \<noteq> (None :: kwval option) \<or>
                       Map.empty ''stdout'' \<noteq> (None :: kwval option)))"
    by simp
  have prog: "program example_world (''/tmp/c/foo/1.0/foo'' # [''--version'']) ''UTF-8''
                (if True then Map.empty(''stderr'' \<mapsto> PIPE, ''stdout'' \<mapsto> PIPE) else Map.empty)
              = Inr (1, Some [], Some ''boom'')"
    by (simp add: example_world_def example_program_def)
  show ?thesis
    using run_binary_check [OF example_resolved k prog, where check = True]
      run_binary_check [OF example_resolved k prog, where check = False]
    by simp
qed

subsection \<open>Empty overrides\<close>

text \<open>What \<open>run_binary\<close> does on each side of the truth test of \<open>override_path\<close>.\<close>

lemma run_binary_downloading:
  assumes "\<not> truthy (override_path self)"
  shows "run_binary self arguments capture_output check encoding kwargs w =
           (case download_binary self (warn_unless_set_up self w) of
              (Inl e, w1) \<Rightarrow> (Inl e, w1)
            | (Inr bp, w1) \<Rightarrow>
                if capture_output \<and> (kwargs ''stderr'' \<noteq> None \<or> kwargs ''stdout'' \<noteq> None)
                then (Inl (ValueError ''Do not specify both capture_output and stdout/stderr''),
                      w1)
                else subprocess_run (bp # arguments) check encoding
                       (if capture_output
                        then kwargs(''stderr'' \<mapsto> PIPE, ''stdout'' \<mapsto> PIPE) else kwargs)
                       w1)"
proof -
  obtain r w1 where d: "download_binary self (warn_unless_set_up self w) = (r, w1)"
    by (cases "download_binary self (warn_unless_set_up self w)")
  then have res: "resolve_binary_path self (warn_unless_set_up self w) = (r, w1)"
    using resolve_binary_path_download [OF assms] by simp
  show ?thesis
  proof (cases r)
    case (Inl e)
    then show ?thesis
      using res d by (simp add: run_binary_unresolved)
  next
    case (Inr bp)
    then show ?thesis
      using res d by (simp add: run_binary_resolved)
  qed
qed

lemma run_binary_overridden:
  assumes "override_path self = Some p" and "p \<noteq> []"
  shows "run_binary self arguments capture_output check encoding kwargs w =
           (if capture_output \<and> (kwargs ''stderr'' \<noteq> None \<or> kwargs ''stdout'' \<noteq> None)
            then (Inl (ValueError ''Do not specify both capture_output and stdout/stderr''),
                  warn_unless_set_up self w)
            else subprocess_run (p # arguments) check encoding
                   (if capture_output
                    then kwargs(''stderr'' \<mapsto> PIPE, ''stdout'' \<mapsto> PIPE) else kwargs)
                   (warn_unless_set_up self w))"
  using run_binary_resolved [OF resolve_binary_path_override [OF assms]] by simp


text \<open>
  C10. The overrides are tested for truth. With the empty string as \<open>override_path\<close>,
  \<open>run_binary\<close> does what it does with no override path, and that is the download flow:
  \<open>download_binary\<close> runs, its exception is raised if it fails, and otherwise the command
  is the path it returned followed by the arguments. With a non-empty \<open>override_path\<close>,
  \<open>run_binary\<close> runs that path followed by the arguments, starts no fetch and leaves the
  files alone. With the empty string as \<open>override_url\<close>, \<open>remote_binary_url\<close> is the default
  template, as with no override URL; a non-empty \<open>override_url\<close> is returned as it is.
\<close>

theorem empty_override_is_unset:
  "run_binary (self \<lparr> override_path := Some [] \<rparr>) arguments capture_output check encoding kwargs w
     = run_binary (self \<lparr> override_path := None \<rparr>) arguments capture_output check encoding
         kwargs w \<and>
   run_binary (self \<lparr> override_path := Some [] \<rparr>) arguments capture_output check encoding kwargs w
     = (case download_binary self (warn_unless_set_up self w) of
          (Inl e, w1) \<Rightarrow> (Inl e, w1)
        | (Inr bp, w1) \<Rightarrow>
            if capture_output \<and> (kwargs ''stderr'' \<noteq> None \<or> kwargs ''stdout'' \<noteq> None)
            then (Inl (ValueError ''Do not specify both capture_output and stdout/stderr''), w1)
            else subprocess_run (bp # arguments) check encoding
                   (if capture_output
                    then kwargs(''stderr'' \<mapsto> PIPE, ''stdout'' \<mapsto> PIPE) else kwargs)
                   w1) \<and>
   (p \<noteq> [] \<longrightarrow>
      run_binary (self \<lparr> override_path := Some p \<rparr>) arguments capture_output check encoding
          kwargs w
        = (if capture_output \<and> (kwargs ''stderr'' \<noteq> None \<or> kwargs ''stdout'' \<noteq> None)
           then (Inl (ValueError ''Do not specify both capture_output and stdout/stderr''),
                 warn_unless_set_up self w)
           else subprocess_run (p # arguments) check encoding
                  (if capture_output
                   then kwargs(''stderr'' \<mapsto> PIPE, ''stdout'' \<mapsto> PIPE) else kwargs)
                  (warn_unless_set_up self w)) \<and>
      fetched (trace (snd (run_binary (self \<lparr> override_path := Some p \<rparr>) arguments
                             capture_output check encoding kwargs w)))
        = fetched (trace w) \<and>
      files (snd (run_binary (self \<lparr> override_path := Some p \<rparr>) arguments
                    capture_output check encoding kwargs w))
        = files w) \<and>
   resolve_binary_path (self \<lparr> override_path := Some [] \<rparr>) w = download_binary self w \<and>
   (p \<noteq> [] \<longrightarrow> resolve_binary_path (self \<lparr> override_path := Some p \<rparr>) w = (Inr p, w)) \<and>
   remote_binary_url (self \<lparr> override_url := Some [] \<rparr>)
     = Inr (''https://storage.googleapis.com/pre-commit-assets/'' @ binary_name self @ ''/'' @
            version self @ ''/bin/'' @ binary_name self) \<and>
   remote_binary_url (self \<lparr> override_url := Some [] \<rparr>)
     = remote_binary_url (self \<lparr> override_url := None \<rparr>) \<and>
   (u \<noteq> [] \<longrightarrow> remote_binary_url (self \<lparr> override_url := Some u \<rparr>) = Inr u)"
proof -
  let ?e = "self \<lparr> override_path := Some [] \<rparr>"
  let ?n = "self \<lparr> override_path := None \<rparr>"
  let ?o = "self \<lparr> override_path := Some p \<rparr>"
  have falsy: "\<not> truthy (override_path ?e)" "\<not> truthy (override_path ?n)"
    by (simp_all add: truthy_def)
  have empty: "run_binary ?e arguments capture_output check encoding kwargs w
     = (case download_binary self (warn_unless_set_up self w) of
          (Inl e, w1) \<Rightarrow> (Inl e, w1)
        | (Inr bp, w1) \<Rightarrow>
            if capture_output \<and> (kwargs ''stderr'' \<noteq> None \<or> kwargs ''stdout'' \<noteq> None)
            then (Inl (ValueError ''Do not specify both capture_output and stdout/stderr''), w1)
            else subprocess_run (bp # arguments) check encoding
                   (if capture_output
                    then kwargs(''stderr'' \<mapsto> PIPE, ''stdout'' \<mapsto> PIPE) else kwargs)
                   w1)"
    using run_binary_downloading [OF falsy(1)]
    by (simp add: download_binary_override_path warn_unless_set_up_override_path)
  have none: "run_binary ?n arguments capture_output check encoding kwargs w
                = run_binary ?e arguments capture_output check encoding kwargs w"
    using run_binary_downloading [OF falsy(2)]
    by (simp add: empty download_binary_override_path warn_unless_set_up_override_path)
  have over: "run_binary ?o arguments capture_output check encoding kwargs w
        = (if capture_output \<and> (kwargs ''stderr'' \<noteq> None \<or> kwargs ''stdout'' \<noteq> None)
           then (Inl (ValueError ''Do not specify both capture_output and stdout/stderr''),
                 warn_unless_set_up self w)
           else subprocess_run (p # arguments) check encoding
                  (if capture_output
                   then kwargs(''stderr'' \<mapsto> PIPE, ''stdout'' \<mapsto> PIPE) else kwargs)
                  (warn_unless_set_up self w))" if "p \<noteq> []"
  proof -
    have "override_path ?o = Some p"
      by simp
    from run_binary_overridden [OF this that] show ?thesis
      by (simp only: warn_unless_set_up_override_path)
  qed
  have quiet: "fetched (trace (snd (run_binary ?o arguments capture_output check encoding
                                      kwargs w))) = fetched (trace w) \<and>
               files (snd (run_binary ?o arguments capture_output check encoding kwargs w))
                 = files w" if "p \<noteq> []"
    by (simp add: over [OF that] subprocess_run_frame warn_unless_set_up_frame)
  have urls: "remote_binary_url (self \<lparr> override_url := Some [] \<rparr>)
     = Inr (''https://storage.googleapis.com/pre-commit-assets/'' @ binary_name self @ ''/'' @
            version self @ ''/bin/'' @ binary_name self)"
    "remote_binary_url (self \<lparr> override_url := Some [] \<rparr>)
     = remote_binary_url (self \<lparr> override_url := None \<rparr>)"
    "u \<noteq> [] \<longrightarrow> remote_binary_url (self \<lparr> override_url := Some u \<rparr>) = Inr u"
    by (simp_all add: remote_binary_url_def str_format_REMOTE_URL)
  have res: "resolve_binary_path ?e w = download_binary self w"
    "p \<noteq> [] \<longrightarrow> resolve_binary_path ?o w = (Inr p, w)"
    by (simp_all add: resolve_binary_path_def download_binary_override_path)
  show ?thesis
    using empty none over quiet urls res by presburger
qed

theorem empty_override_is_unset_witness:
  "run_binary (init ''foo'' ''1.0'' \<lparr> override_path := Some [] \<rparr>) [''--version''] True False
       ''UTF-8'' Map.empty example_world
     = run_binary (init ''foo'' ''1.0'') [''--version''] True False ''UTF-8'' Map.empty
         example_world \<and>
   fst (run_binary (init ''foo'' ''1.0'' \<lparr> override_path := Some [] \<rparr>) [''--version''] True False
          ''UTF-8'' Map.empty example_world)
     = Inr (CompletedProcess [''/tmp/c/foo/1.0/foo'', ''--version''] 1 (Some []) (Some ''boom'')) \<and>
   fetched (trace (snd (run_binary (init ''foo'' ''1.0'' \<lparr> override_path := Some [] \<rparr>)
                          [''--version''] True False ''UTF-8'' Map.empty example_world)))
     = [''https://storage.googleapis.com/pre-commit-assets/foo/1.0/bin/foo''] \<and>
   spawned (trace (snd (run_binary (init ''foo'' ''1.0'' \<lparr> override_path := Some [] \<rparr>)
                          [''--version''] True False ''UTF-8'' Map.empty example_world)))
     = [[''/tmp/c/foo/1.0/foo'', ''--version'']] \<and>
   fst (run_binary (init ''foo'' ''1.0'' \<lparr> override_path := Some ''/opt/foo'' \<rparr>) [''--version'']
          True False ''UTF-8'' Map.empty example_world)
     = Inr (CompletedProcess [''/opt/foo'', ''--version''] 1 (Some []) (Some ''boom'')) \<and>
   fetched (trace (snd (run_binary (init ''foo'' ''1.0'' \<lparr> override_path := Some ''/opt/foo'' \<rparr>)
                          [''--version''] True False ''UTF-8'' Map.empty example_world)))
     = [] \<and>
   spawned (trace (snd (run_binary (init ''foo'' ''1.0'' \<lparr> override_path := Some ''/opt/foo'' \<rparr>)
                          [''--version''] True False ''UTF-8'' Map.empty example_world)))
     = [[''/opt/foo'', ''--version'']] \<and>
   remote_binary_url (init ''foo'' ''1.0'' \<lparr> override_url := Some ''https://example.com/foo'' \<rparr>)
     = Inr ''https://example.com/foo'' \<and>
   remote_binary_url (init ''foo'' ''1.0'' \<lparr> override_url := Some [] \<rparr>)
     = Inr ''https://storage.googleapis.com/pre-commit-assets/foo/1.0/bin/foo''"
proof -
  let ?d = "init ''foo'' ''1.0''"
  let ?w = "log_warning setup_warning example_world"
  let ?w1 = "snd (download_binary ?d ?w)"
  let ?k = "(Map.empty :: string \<rightharpoonup> kwval)(''stderr'' \<mapsto> PIPE, ''stdout'' \<mapsto> PIPE)"
  note t = empty_override_is_unset [where self = ?d and p = "''/opt/foo''" and u = "''https://example.com/foo''"
                  and w = example_world and arguments = "[''--version'']"
                  and capture_output = True and check = False and encoding = "''UTF-8''"
                  and kwargs = Map.empty]
  note t1 = t [THEN conjunct1]
  note t2 = t [THEN conjunct2, THEN conjunct1]
  note t3 = t [THEN conjunct2, THEN conjunct2, THEN conjunct1]
  note t6 = t [THEN conjunct2, THEN conjunct2, THEN conjunct2, THEN conjunct2, THEN conjunct2,
               THEN conjunct1]
  note t8 = t [THEN conjunct2, THEN conjunct2, THEN conjunct2, THEN conjunct2, THEN conjunct2,
               THEN conjunct2, THEN conjunct2]
  have d: "download_binary ?d (warn_unless_set_up ?d example_world)
             = (Inr ''/tmp/c/foo/1.0/foo'', ?w1)"
    using example_download_warned(1) by (simp add: example_warned prod_eq_iff)
  then have d': "download_binary ?d ?w = (Inr ''/tmp/c/foo/1.0/foo'', ?w1)"
    by (simp add: example_warned)
  have prog: "program ?w1 = example_program" and sp: "spawned (trace ?w1) = []"
    using download_binary_frame [OF d']
    by (simp_all add: log_warning_def example_world_def)
  have same: "run_binary (?d \<lparr> override_path := Some [] \<rparr>) [''--version''] True False
                  ''UTF-8'' Map.empty example_world
              = run_binary ?d [''--version''] True False ''UTF-8'' Map.empty example_world"
    using t1 by (simp add: init_def)
  have empty: "run_binary (?d \<lparr> override_path := Some [] \<rparr>) [''--version''] True False
                  ''UTF-8'' Map.empty example_world
               = subprocess_run [''/tmp/c/foo/1.0/foo'', ''--version''] False ''UTF-8'' ?k ?w1"
    unfolding t2 d by simp
  have over: "run_binary (?d \<lparr> override_path := Some ''/opt/foo'' \<rparr>) [''--version''] True False
                  ''UTF-8'' Map.empty example_world
              = subprocess_run [''/opt/foo'', ''--version''] False ''UTF-8'' ?k ?w"
    using t3 by (simp add: example_warned)
  have urls: "remote_binary_url (?d \<lparr> override_url := Some ''https://example.com/foo'' \<rparr>)
                = Inr ''https://example.com/foo''"
    "remote_binary_url (?d \<lparr> override_url := Some [] \<rparr>)
       = Inr ''https://storage.googleapis.com/pre-commit-assets/foo/1.0/bin/foo''"
    using t6 t8 by (simp_all add: init_fields)
  have r1: "fst (subprocess_run [''/tmp/c/foo/1.0/foo'', ''--version''] False ''UTF-8'' ?k ?w1)
              = Inr (CompletedProcess [''/tmp/c/foo/1.0/foo'', ''--version''] 1 (Some [])
                       (Some ''boom''))"
    by (simp add: subprocess_run_def prog example_program_def)
  have r2: "fst (subprocess_run [''/opt/foo'', ''--version''] False ''UTF-8'' ?k ?w)
              = Inr (CompletedProcess [''/opt/foo'', ''--version''] 1 (Some []) (Some ''boom''))"
    by (simp add: subprocess_run_def log_warning_def example_world_def example_program_def)
  have q: "fetched (trace ?w) = []" "spawned (trace ?w) = []"
    by (simp_all add: log_warning_def example_world_def)
  show ?thesis
    by (simp only: same [symmetric] empty over urls r1 r2 subprocess_run_frame
        example_download_warned(2) sp q) simp
qed

end
